theory Spec2Isabelle
  imports Complex_Main
begin

section \<open>The type lattice\<close>

text \<open>
  Modelled from the spec: \<^verbatim>\<open>data_type.hpp\<close> is not among the sources. The enum
  \<^verbatim>\<open>DataType\<close> has the four members the analyzer names (\<^verbatim>\<open>DataType::INT\<close>,
  \<^verbatim>\<open>FLOAT\<close>, \<^verbatim>\<open>BOOL\<close>, \<^verbatim>\<open>IOTA\<close>; the prefix avoids the input syntax \<^verbatim>\<open>INT\<close> of HOL); the spec calls them Int, Float, Bool and
  Unit, the four-element lattice.
\<close>

datatype DataType = DT_INT | DT_FLOAT | DT_BOOL | DT_IOTA

text \<open>\<^verbatim>\<open>SemanticAnalyzer::stringToDataType\<close> and \<^verbatim>\<open>TypeNode::toDataType\<close>.\<close>

definition stringToDataType :: "string \<Rightarrow> DataType" where
  "stringToDataType typeStr =
     (if typeStr = ''int'' then DT_INT
      else if typeStr = ''float'' then DT_FLOAT
      else if typeStr = ''bool'' then DT_BOOL
      else DT_IOTA)"

datatype TypeNode = TypeNode (typeName: string)

definition toDataType :: "TypeNode \<Rightarrow> DataType" where
  "toDataType t =
     (if typeName t = ''int'' then DT_INT
      else if typeName t = ''float'' then DT_FLOAT
      else if typeName t = ''bool'' then DT_BOOL
      else DT_IOTA)"

definition isNumericType :: "DataType \<Rightarrow> bool" where
  "isNumericType ty = (ty = DT_INT \<or> ty = DT_FLOAT)"

definition isComparable :: "DataType \<Rightarrow> bool" where
  "isComparable ty = (ty = DT_INT \<or> ty = DT_FLOAT \<or> ty = DT_BOOL)"

text \<open>
  \<^verbatim>\<open>SemanticAnalyzer::isAssignmentCompatible(target, source)\<close>: four tests in the
  order of the source, then \<^verbatim>\<open>return false\<close>.
\<close>

definition isAssignmentCompatible :: "DataType \<Rightarrow> DataType \<Rightarrow> bool" where
  "isAssignmentCompatible target source =
     (if target = source then True
      else if target = DT_BOOL \<and> source = DT_INT then True
      else if target = DT_FLOAT \<and> source = DT_INT then True
      else if target = DT_INT \<and> source = DT_BOOL then True
      else False)"

section \<open>Symbols and scopes (\<^verbatim>\<open>astnode.hpp\<close>)\<close>

datatype SymbolKind = VARIABLE | CONSTANT | FUNCTION

record SymbolInfo =
  si_name :: string
  si_type :: DataType
  si_kind :: SymbolKind
  si_isConstant :: bool
  si_paramTypes :: "DataType list"
  si_returnType :: DataType

text \<open>
  The two constructors of \<^verbatim>\<open>SymbolInfo\<close>: the default one, and the one taking name,
  type, kind and the constant flag (\<^verbatim>\<open>returnType\<close> is \<^verbatim>\<open>IOTA\<close>, no parameters).
\<close>

definition SymbolInfo0 :: SymbolInfo where
  "SymbolInfo0 =
     \<lparr>si_name = [], si_type = DT_IOTA, si_kind = VARIABLE, si_isConstant = False,
      si_paramTypes = [], si_returnType = DT_IOTA\<rparr>"

definition SymbolInfo4 :: "string \<Rightarrow> DataType \<Rightarrow> SymbolKind \<Rightarrow> bool \<Rightarrow> SymbolInfo" where
  "SymbolInfo4 n t k constant =
     \<lparr>si_name = n, si_type = t, si_kind = k, si_isConstant = constant,
      si_paramTypes = [], si_returnType = DT_IOTA\<rparr>"

text \<open>
  A \<^verbatim>\<open>Scope\<close> is a \<^verbatim>\<open>std::map\<close> from names to symbols and a nullable
  \<^verbatim>\<open>shared_ptr\<close> to the parent. The walker only ever writes to the scope that
  \<^verbatim>\<open>currentScope\<close> points to, and a scope is current only after its children are
  popped, so a scope is never written while a child of it is alive: the parent is held
  here by value.
\<close>

datatype Scope = Scope (table: "string \<rightharpoonup> SymbolInfo") (parent: "Scope option")

text \<open>
  \<^verbatim>\<open>Scope::addSymbol\<close> returns the flag and leaves the updated scope;
  \<^verbatim>\<open>lookupLocal\<close>, \<^verbatim>\<open>lookup\<close> and \<^verbatim>\<open>existsLocal\<close> read it (a null pointer is
  \<open>None\<close>).
\<close>

definition addSymbol :: "Scope \<Rightarrow> string \<Rightarrow> SymbolInfo \<Rightarrow> bool \<times> Scope" where
  "addSymbol sc name info =
     (if table sc name \<noteq> None then (False, sc)
      else (True, Scope ((table sc)(name \<mapsto> info)) (parent sc)))"

definition lookupLocal :: "Scope \<Rightarrow> string \<Rightarrow> SymbolInfo option" where
  "lookupLocal sc name = table sc name"

fun lookup :: "Scope \<Rightarrow> string \<Rightarrow> SymbolInfo option" where
  "lookup (Scope t p) name =
     (case t name of
        Some info \<Rightarrow> Some info
      | None \<Rightarrow> (case p of Some ps \<Rightarrow> lookup ps name | None \<Rightarrow> None))"

definition existsLocal :: "Scope \<Rightarrow> string \<Rightarrow> bool" where
  "existsLocal sc name = (table sc name \<noteq> None)"

section \<open>The tree (\<^verbatim>\<open>astnode.hpp\<close>)\<close>

text \<open>
  The expression classes. The analyzer never reads a literal's value; the \<^verbatim>\<open>double\<close>
  of a \<^verbatim>\<open>FloatNode\<close> is a placeholder of type \<open>real\<close>.
\<close>

datatype Literal = LitInt int | LitFloat real | LitBool bool

datatype ExprNode =
    IntegerNode int
  | FloatNode real
  | BoolNode bool
  | LiteralNode Literal
  | IdentifierNode string
  | BinaryOpNode ExprNode string ExprNode
  | UnaryOpNode string ExprNode
  | FunctionCallNode string "ExprNode list"

datatype Parameter = Parameter (p_name: string) (p_type: DataType)

text \<open>
  Every other class of the tree. An item of a block is an \<^verbatim>\<open>ASTNode*\<close>, so a block
  can hold a node of any class: \<open>ExprItem\<close> is an expression node standing in item
  position. The second family of statement classes (\<^verbatim>\<open>AssignmentNode\<close>, \<^verbatim>\<open>IfNode\<close>,
  \<^verbatim>\<open>WhileNode\<close>, \<^verbatim>\<open>ReturnNode\<close>, \<^verbatim>\<open>PrintNode\<close>) derives from \<^verbatim>\<open>StmtNode\<close> as the
  first does. A \<^verbatim>\<open>FunctionDeclNode\<close> stores the return type its constructor computed.
\<close>

datatype ASTNode =
    ExprItem ExprNode
  | PrintStmtNode ExprNode
  | IfStmtNode ExprNode "ASTNode list" "ASTNode list"
  | WhileStmtNode ExprNode "ASTNode list"
  | AssignmentStmtNode string ExprNode
  | ReturnStmtNode "ExprNode option"
  | BlockNode "ASTNode list"
  | VarDeclNode bool string TypeNode "ExprNode option"
  | AssignmentNode string ExprNode
  | IfNode ExprNode ASTNode "ASTNode option"
  | WhileNode ExprNode ASTNode
  | ReturnNode "ExprNode option"
  | PrintNode ExprNode
  | ExprStmtNode ExprNode
  | FunctionDeclNode string "Parameter list" DataType "ASTNode list"
  | ProgramNode "ASTNode list"

text \<open>\<^verbatim>\<open>dynamic_cast<StmtNode*>\<close> succeeds on the classes derived from \<^verbatim>\<open>StmtNode\<close>.\<close>

fun isStmtNode :: "ASTNode \<Rightarrow> bool" where
  "isStmtNode (ExprItem _) = False"
| "isStmtNode (VarDeclNode _ _ _ _) = False"
| "isStmtNode (FunctionDeclNode _ _ _ _) = False"
| "isStmtNode (ProgramNode _) = False"
| "isStmtNode _ = True"

text \<open>\<^verbatim>\<open>SemanticAnalyzer::isTerminator\<close>.\<close>

fun isTerminator :: "ASTNode \<Rightarrow> bool" where
  "isTerminator (ReturnStmtNode _) = True"
| "isTerminator _ = False"

section \<open>Diagnostics\<close>

text \<open>
  Modelled from the spec: \<^verbatim>\<open>exception.hpp\<close> is not among the sources. The kinds are
  the enumerators of \<^verbatim>\<open>SemanticErrorType\<close> that the analyzer throws (the eighteen kinds
  of the spec's taxonomy), the contexts are the factory functions of
  \<^verbatim>\<open>SemanticErrorContext\<close> with the arguments the analyzer passes. A
  \<^verbatim>\<open>std::runtime_error\<close> is the internal error, outside the taxonomy.
\<close>

datatype SemanticErrorType =
    REDECLARED_FUNCTION | REDECLARED_IDENTIFIER | UNDECLARED_IDENTIFIER
  | UNDECLARED_FUNCTION | FUNCTION_USED_AS_VARIABLE | NOT_A_FUNCTION
  | VAR_DECL_TYPE_MISMATCH | VAR_ASSIGN_TYPE_MISMATCH | VAR_ASSIGN_TO_CONSTANT
  | WRONG_NUMBER_OF_ARGUMENTS | INVALID_SIGNATURE | INVALID_BINARY_OPERATION
  | INVALID_UNARY_OPERATION | CONDITION_NOT_BOOL | RETURN_TYPE_MISMATCH
  | RETURN_OUTSIDE_FUNCTION | MISSING_RETURN | UNREACHABLE_CODE

datatype SemanticErrorContext =
    NoContext
  | Function string
  | Identifier string
  | IdentifierTypeMismatch string DataType DataType
  | ReturnTypeMismatch string DataType DataType
  | ActualType DataType
  | InvalidOperationBetweenTypes string DataType DataType
  | ArgCount string nat nat
  | Signature string "DataType list" "DataType list"

datatype exception =
    SemanticException SemanticErrorType SemanticErrorContext
  | runtime_error string

section \<open>Expression typing (\<^verbatim>\<open>SemanticAnalyzer::analyzeExpr\<close>)\<close>

text \<open>
  \<^verbatim>\<open>analyzeExpr\<close> reads \<^verbatim>\<open>currentScope\<close> and writes nothing: it takes the scope and
  returns the type, or the exception thrown. The loop over the arguments of a call is
  \<open>analyzeArgs\<close>, with the index \<open>i\<close> and the vector \<^verbatim>\<open>actualTypes\<close> built so far;
  \<^verbatim>\<open>paramTypes[i]\<close> is in range there, the sizes being equal. A binary or unary node
  whose operator matches no test leaves the chain of tests and reaches the last line,
  \<^verbatim>\<open>return DataType::IOTA\<close>, as a \<^verbatim>\<open>LiteralNode\<close> does.
\<close>

fun analyzeExpr :: "Scope \<Rightarrow> ExprNode \<Rightarrow> exception + DataType"
  and analyzeArgs ::
    "Scope \<Rightarrow> string \<Rightarrow> DataType list \<Rightarrow> DataType list \<Rightarrow> nat \<Rightarrow> ExprNode list
       \<Rightarrow> exception + unit"
where
  "analyzeExpr sc (IntegerNode v) = Inr DT_INT"
| "analyzeExpr sc (FloatNode v) = Inr DT_FLOAT"
| "analyzeExpr sc (BoolNode v) = Inr DT_BOOL"
| "analyzeExpr sc (IdentifierNode name) =
     (case lookup sc name of
        None \<Rightarrow> Inl (SemanticException UNDECLARED_IDENTIFIER (Identifier name))
      | Some symbol \<Rightarrow>
          if si_kind symbol = FUNCTION
          then Inl (SemanticException FUNCTION_USED_AS_VARIABLE (Function name))
          else Inr (si_type symbol))"
| "analyzeExpr sc (BinaryOpNode left op right) =
     (case analyzeExpr sc left of
        Inl e \<Rightarrow> Inl e
      | Inr leftType \<Rightarrow>
         (case analyzeExpr sc right of
            Inl e \<Rightarrow> Inl e
          | Inr rightType \<Rightarrow>
              if op = ''+'' \<or> op = ''-'' \<or> op = ''*'' \<or> op = ''/'' then
                if \<not> isNumericType leftType \<or> \<not> isNumericType rightType
                then Inl (SemanticException INVALID_BINARY_OPERATION
                            (InvalidOperationBetweenTypes op leftType rightType))
                else if leftType = DT_FLOAT \<or> rightType = DT_FLOAT then Inr DT_FLOAT
                else Inr DT_INT
              else if op = ''<'' \<or> op = ''>'' \<or> op = ''<='' \<or> op = ''>='' then
                if \<not> isNumericType leftType \<or> \<not> isNumericType rightType
                then Inl (SemanticException INVALID_BINARY_OPERATION
                            (InvalidOperationBetweenTypes op leftType rightType))
                else Inr DT_BOOL
              else if op = ''=='' \<or> op = ''!='' then
                if leftType \<noteq> rightType
                then Inl (SemanticException INVALID_BINARY_OPERATION
                            (InvalidOperationBetweenTypes op leftType rightType))
                else Inr DT_BOOL
              else Inr DT_IOTA))"
| "analyzeExpr sc (UnaryOpNode op operand) =
     (case analyzeExpr sc operand of
        Inl e \<Rightarrow> Inl e
      | Inr operandType \<Rightarrow>
          if op = ''-'' then
            if \<not> isNumericType operandType
            then Inl (SemanticException INVALID_UNARY_OPERATION (ActualType operandType))
            else Inr operandType
          else Inr DT_IOTA)"
| "analyzeExpr sc (FunctionCallNode functionName arguments) =
     (case lookup sc functionName of
        None \<Rightarrow> Inl (SemanticException UNDECLARED_FUNCTION (Function functionName))
      | Some symbol \<Rightarrow>
          if si_kind symbol \<noteq> FUNCTION
          then Inl (SemanticException NOT_A_FUNCTION (Identifier functionName))
          else if length arguments \<noteq> length (si_paramTypes symbol)
          then Inl (SemanticException WRONG_NUMBER_OF_ARGUMENTS
                      (ArgCount functionName (length (si_paramTypes symbol))
                         (length arguments)))
          else (case analyzeArgs sc functionName (si_paramTypes symbol) [] 0 arguments of
                  Inl e \<Rightarrow> Inl e
                | Inr _ \<Rightarrow> Inr (si_returnType symbol)))"
| "analyzeExpr sc (LiteralNode l) = Inr DT_IOTA"
| "analyzeArgs sc functionName paramTypes actualTypes i [] = Inr ()"
| "analyzeArgs sc functionName paramTypes actualTypes i (arg # rest) =
     (case analyzeExpr sc arg of
        Inl e \<Rightarrow> Inl e
      | Inr argType \<Rightarrow>
          if \<not> isAssignmentCompatible (paramTypes ! i) argType
          then Inl (SemanticException INVALID_SIGNATURE
                      (Signature functionName paramTypes (actualTypes @ [argType])))
          else analyzeArgs sc functionName paramTypes (actualTypes @ [argType]) (Suc i) rest)"

section \<open>The walker (\<^verbatim>\<open>SemanticAnalyzer\<close>)\<close>

text \<open>
  The fields of the class that the walk reads and writes. \<^verbatim>\<open>currentScope\<close> is null
  only between the constructor and the first line of \<^verbatim>\<open>analyzeProgram\<close>, which no
  path of the walk reads; the record holds a scope.
\<close>

record SemanticAnalyzer =
  currentScope :: Scope
  currentFunction :: string
  currentFunctionReturnType :: DataType
  hasReturn :: bool
  isUnreachable :: bool

text \<open>
  A member function either returns, leaving the object in a state, or throws, leaving
  it in the state it had at the \<^verbatim>\<open>throw\<close>: the source has no handler and no guard
  object, so nothing runs between the \<^verbatim>\<open>throw\<close> and the caller of \<^verbatim>\<open>analyze\<close>.
\<close>

datatype outcome = Normal SemanticAnalyzer | Thrown exception SemanticAnalyzer

definition unreachable_code :: exception where
  "unreachable_code = SemanticException UNREACHABLE_CODE NoContext"

text \<open>\<^verbatim>\<open>analyzeVarDecl\<close>; the node's fields are the arguments.\<close>

definition analyzeVarDecl ::
  "SemanticAnalyzer \<Rightarrow> bool \<Rightarrow> string \<Rightarrow> TypeNode \<Rightarrow> ExprNode option \<Rightarrow> outcome" where
  "analyzeVarDecl w isConstant name typeNode initializer =
     (if isUnreachable w then Thrown unreachable_code w
      else if existsLocal (currentScope w) name then
        (case lookupLocal (currentScope w) name of
           Some existing \<Rightarrow>
             if si_kind existing = FUNCTION
             then Thrown (SemanticException REDECLARED_FUNCTION (Function name)) w
             else Thrown (SemanticException REDECLARED_IDENTIFIER (Identifier name)) w
         | None \<Rightarrow> Thrown (SemanticException REDECLARED_IDENTIFIER (Identifier name)) w)
      else
        let declaredType = toDataType typeNode;
            added = w\<lparr>currentScope :=
              snd (addSymbol (currentScope w) name
                     (SymbolInfo4 name declaredType VARIABLE isConstant))\<rparr>
        in case initializer of
             None \<Rightarrow> Normal added
           | Some init \<Rightarrow>
               (case analyzeExpr (currentScope w) init of
                  Inl e \<Rightarrow> Thrown e w
                | Inr initType \<Rightarrow>
                    if \<not> isAssignmentCompatible declaredType initType
                    then Thrown (SemanticException VAR_DECL_TYPE_MISMATCH
                                   (IdentifierTypeMismatch name declaredType initType)) w
                    else Normal added))"

text \<open>\<^verbatim>\<open>analyzeAssignment\<close>.\<close>

definition analyzeAssignment :: "SemanticAnalyzer \<Rightarrow> string \<Rightarrow> ExprNode \<Rightarrow> outcome" where
  "analyzeAssignment w variableName val =
     (if isUnreachable w then Thrown unreachable_code w
      else case lookup (currentScope w) variableName of
        None \<Rightarrow> Thrown (SemanticException UNDECLARED_IDENTIFIER (Identifier variableName)) w
      | Some symbol \<Rightarrow>
          if si_kind symbol = FUNCTION
          then Thrown (SemanticException FUNCTION_USED_AS_VARIABLE (Function variableName)) w
          else if si_isConstant symbol
          then Thrown (SemanticException VAR_ASSIGN_TO_CONSTANT (Identifier variableName)) w
          else (case analyzeExpr (currentScope w) val of
                  Inl e \<Rightarrow> Thrown e w
                | Inr valueType \<Rightarrow>
                    if \<not> isAssignmentCompatible (si_type symbol) valueType
                    then Thrown (SemanticException VAR_ASSIGN_TYPE_MISMATCH
                                   (IdentifierTypeMismatch variableName (si_type symbol)
                                      valueType)) w
                    else Normal w))"

text \<open>\<^verbatim>\<open>analyzeReturn\<close>; \<open>None\<close> is the null \<^verbatim>\<open>value\<close> of a bare return.\<close>

definition analyzeReturn :: "SemanticAnalyzer \<Rightarrow> ExprNode option \<Rightarrow> outcome" where
  "analyzeReturn w val =
     (if isUnreachable w then Thrown unreachable_code w
      else if currentFunction w = []
      then Thrown (SemanticException RETURN_OUTSIDE_FUNCTION NoContext) w
      else
        let done = w\<lparr>hasReturn := True, isUnreachable := True\<rparr>
        in case val of
             Some v \<Rightarrow>
               (case analyzeExpr (currentScope w) v of
                  Inl e \<Rightarrow> Thrown e w
                | Inr returnType \<Rightarrow>
                    if \<not> isAssignmentCompatible (currentFunctionReturnType w) returnType
                    then Thrown (SemanticException RETURN_TYPE_MISMATCH
                                   (ReturnTypeMismatch (currentFunction w)
                                      (currentFunctionReturnType w) returnType)) w
                    else Normal done)
           | None \<Rightarrow>
               if currentFunctionReturnType w \<noteq> DT_IOTA
               then Thrown (SemanticException RETURN_TYPE_MISMATCH
                              (ReturnTypeMismatch (currentFunction w)
                                 (currentFunctionReturnType w) DT_IOTA)) w
               else Normal done)"

text \<open>\<^verbatim>\<open>analyzePrint\<close>.\<close>

definition analyzePrint :: "SemanticAnalyzer \<Rightarrow> ExprNode \<Rightarrow> outcome" where
  "analyzePrint w expression =
     (if isUnreachable w then Thrown unreachable_code w
      else case analyzeExpr (currentScope w) expression of
             Inl e \<Rightarrow> Thrown e w
           | Inr _ \<Rightarrow> Normal w)"

text \<open>The loop of \<^verbatim>\<open>analyzeFunctionDecl\<close> that adds the parameters to the function scope.\<close>

fun addParameters :: "SemanticAnalyzer \<Rightarrow> Parameter list \<Rightarrow> outcome" where
  "addParameters w [] = Normal w"
| "addParameters w (param # rest) =
     (if existsLocal (currentScope w) (p_name param)
      then Thrown (SemanticException REDECLARED_IDENTIFIER (Identifier (p_name param))) w
      else addParameters
             (w\<lparr>currentScope :=
                  snd (addSymbol (currentScope w) (p_name param)
                         (SymbolInfo4 (p_name param) (p_type param) VARIABLE False))\<rparr>)
             rest)"

text \<open>
  \<^verbatim>\<open>checkPathsReturn\<close>: the loop over the items of a block. An item that is a
  \<^verbatim>\<open>ReturnStmtNode\<close> returns true at once; an \<^verbatim>\<open>IfStmtNode\<close> with a non-empty
  \<^verbatim>\<open>elseItems\<close> returns true when both recursive calls do; otherwise the loop goes on
  to the next item, and the empty rest gives false.
\<close>

fun checkPathsReturn :: "ASTNode list \<Rightarrow> bool" where
  "checkPathsReturn [] = False"
| "checkPathsReturn (ReturnStmtNode v # rest) = True"
| "checkPathsReturn (IfStmtNode c thenItems elseItems # rest) =
     (if elseItems \<noteq> [] then
        (let thenReturns = checkPathsReturn thenItems;
             elseReturns = checkPathsReturn elseItems
         in if thenReturns \<and> elseReturns then True else checkPathsReturn rest)
      else checkPathsReturn rest)"
| "checkPathsReturn (item # rest) = checkPathsReturn rest"

text \<open>
  The mutually recursive member functions. \<open>analyzeBlockLoop\<close> is the \<^verbatim>\<open>for\<close> loop of
  \<^verbatim>\<open>analyzeBlock\<close> with its local flag \<^verbatim>\<open>blockUnreachable\<close>, and \<open>analyzeItem\<close> is
  the chain of three casts in the body of that loop: an item that is neither a
  declaration nor a \<^verbatim>\<open>StmtNode\<close> fails all three casts and is skipped. The test
  \<^verbatim>\<open>isTerminator(stmt)\<close> stands in the \<^verbatim>\<open>StmtNode\<close> branch, after \<^verbatim>\<open>analyzeStmt\<close>
  has returned. \<^verbatim>\<open>analyzeStmt\<close> has five casts and no final \<^verbatim>\<open>else\<close>: a statement of
  any other class returns with nothing done.
\<close>

function (sequential)
    analyzeFunctionDecl ::
      "SemanticAnalyzer \<Rightarrow> string \<Rightarrow> Parameter list \<Rightarrow> DataType \<Rightarrow> ASTNode list \<Rightarrow> outcome"
  and analyzeStmt :: "SemanticAnalyzer \<Rightarrow> ASTNode \<Rightarrow> outcome"
  and analyzeIf :: "SemanticAnalyzer \<Rightarrow> ExprNode \<Rightarrow> ASTNode list \<Rightarrow> ASTNode list \<Rightarrow> outcome"
  and analyzeWhile :: "SemanticAnalyzer \<Rightarrow> ExprNode \<Rightarrow> ASTNode list \<Rightarrow> outcome"
  and analyzeBlock :: "SemanticAnalyzer \<Rightarrow> ASTNode list \<Rightarrow> bool \<Rightarrow> outcome"
  and analyzeItem :: "SemanticAnalyzer \<Rightarrow> ASTNode \<Rightarrow> outcome"
  and analyzeBlockLoop :: "SemanticAnalyzer \<Rightarrow> bool \<Rightarrow> ASTNode list \<Rightarrow> outcome"
where
  "analyzeFunctionDecl w name parameters returnType bodyItems =
     (let parentScope = currentScope w;
          entered = w\<lparr>currentScope := Scope Map.empty (Some parentScope),
                      currentFunction := name,
                      currentFunctionReturnType := returnType,
                      hasReturn := False,
                      isUnreachable := False\<rparr>
      in case addParameters entered parameters of
           Thrown e w' \<Rightarrow> Thrown e w'
         | Normal w1 \<Rightarrow>
            (case analyzeBlock w1 bodyItems False of
               Thrown e w' \<Rightarrow> Thrown e w'
             | Normal w2 \<Rightarrow>
                 if currentFunctionReturnType w2 \<noteq> DT_IOTA \<and> \<not> checkPathsReturn bodyItems
                 then Thrown (SemanticException MISSING_RETURN (Function name)) w2
                 else Normal (w2\<lparr>currentFunction := currentFunction w,
                                  currentFunctionReturnType := currentFunctionReturnType w,
                                  hasReturn := hasReturn w,
                                  isUnreachable := isUnreachable w,
                                  currentScope := parentScope\<rparr>)))"
| "analyzeStmt w (AssignmentStmtNode variableName val) = analyzeAssignment w variableName val"
| "analyzeStmt w (ReturnStmtNode val) = analyzeReturn w val"
| "analyzeStmt w (PrintStmtNode expression) = analyzePrint w expression"
| "analyzeStmt w (IfStmtNode condition thenItems elseItems) =
     analyzeIf w condition thenItems elseItems"
| "analyzeStmt w (WhileStmtNode condition bodyItems) = analyzeWhile w condition bodyItems"
| "analyzeStmt w node = Normal w"
| "analyzeIf w condition thenItems elseItems =
     (if isUnreachable w then Thrown unreachable_code w
      else case analyzeExpr (currentScope w) condition of
        Inl e \<Rightarrow> Thrown e w
      | Inr condType \<Rightarrow>
          if condType \<noteq> DT_BOOL
          then Thrown (SemanticException CONDITION_NOT_BOOL (ActualType condType)) w
          else
            (let prevUnreachable = isUnreachable w
             in case analyzeBlock w thenItems True of
                  Thrown e w' \<Rightarrow> Thrown e w'
                | Normal w1 \<Rightarrow>
                    (let thenUnreachable = isUnreachable w1;
                         w2 = w1\<lparr>isUnreachable := prevUnreachable\<rparr>
                     in if elseItems \<noteq> [] then
                          (case analyzeBlock w2 elseItems True of
                             Thrown e w' \<Rightarrow> Thrown e w'
                           | Normal w3 \<Rightarrow>
                               (let elseUnreachable = isUnreachable w3
                                in if thenUnreachable \<and> elseUnreachable
                                   then Normal (w3\<lparr>isUnreachable := True\<rparr>)
                                   else Normal (w3\<lparr>isUnreachable := prevUnreachable\<rparr>)))
                        else Normal (w2\<lparr>isUnreachable := prevUnreachable\<rparr>))))"
| "analyzeWhile w condition bodyItems =
     (if isUnreachable w then Thrown unreachable_code w
      else case analyzeExpr (currentScope w) condition of
        Inl e \<Rightarrow> Thrown e w
      | Inr condType \<Rightarrow>
          if condType \<noteq> DT_BOOL
          then Thrown (SemanticException CONDITION_NOT_BOOL (ActualType condType)) w
          else
            (let prevUnreachable = isUnreachable w
             in case analyzeBlock w bodyItems True of
                  Thrown e w' \<Rightarrow> Thrown e w'
                | Normal w1 \<Rightarrow> Normal (w1\<lparr>isUnreachable := prevUnreachable\<rparr>)))"
| "analyzeBlock w block createNewScope =
     (let parentScope = currentScope w;
          w1 = (if createNewScope
                then w\<lparr>currentScope := Scope Map.empty (Some parentScope)\<rparr> else w)
      in case analyzeBlockLoop w1 False block of
           Thrown e w' \<Rightarrow> Thrown e w'
         | Normal w2 \<Rightarrow>
             Normal (if createNewScope then w2\<lparr>currentScope := parentScope\<rparr> else w2))"
| "analyzeItem w (FunctionDeclNode name parameters returnType bodyItems) =
     analyzeFunctionDecl w name parameters returnType bodyItems"
| "analyzeItem w (VarDeclNode isConstant name typeNode initializer) =
     analyzeVarDecl w isConstant name typeNode initializer"
| "analyzeItem w item = (if isStmtNode item then analyzeStmt w item else Normal w)"
| "analyzeBlockLoop w blockUnreachable [] = Normal w"
| "analyzeBlockLoop w blockUnreachable (item # rest) =
     (if blockUnreachable then Thrown unreachable_code w
      else case analyzeItem w item of
        Thrown e w' \<Rightarrow> Thrown e w'
      | Normal w' \<Rightarrow>
          if isStmtNode item \<and> isTerminator item
          then analyzeBlockLoop (w'\<lparr>isUnreachable := True\<rparr>) True rest
          else analyzeBlockLoop w' False rest)"
  by pat_completeness auto
termination
  by (relation "measure (\<lambda>x. case x of
        Inl (Inl (w, name, ps, rt, body)) \<Rightarrow> 3 * size_list size body + 2
      | Inl (Inr (Inl (w, node))) \<Rightarrow> 3 * size node
      | Inl (Inr (Inr (w, c, t, e))) \<Rightarrow> 3 * (size_list size t + size_list size e) + 2
      | Inr (Inl (Inl (w, c, b))) \<Rightarrow> 3 * size_list size b + 2
      | Inr (Inl (Inr (w, xs, b))) \<Rightarrow> 3 * size_list size xs + 1
      | Inr (Inr (Inl (w, item))) \<Rightarrow> 3 * size item + 1
      | Inr (Inr (Inr (w, b, xs))) \<Rightarrow> 3 * size_list size xs)") auto

declare analyzeFunctionDecl.simps [simp del] analyzeIf.simps [simp del]
  analyzeWhile.simps [simp del] analyzeBlock.simps [simp del]

text \<open>
  \<^verbatim>\<open>analyzeProgram\<close>: the global scope is created, the first loop registers every
  \<^verbatim>\<open>FunctionDeclNode\<close> of the declarations (\<open>registerFunctions\<close>), the second loop
  analyzes the declarations in order (\<open>analyzeDeclarations\<close>).
\<close>

fun registerFunctions :: "SemanticAnalyzer \<Rightarrow> ASTNode list \<Rightarrow> outcome" where
  "registerFunctions w [] = Normal w"
| "registerFunctions w (FunctionDeclNode name parameters returnType bodyItems # rest) =
     (if existsLocal (currentScope w) name then
        (case lookupLocal (currentScope w) name of
           Some existing \<Rightarrow>
             if si_kind existing = FUNCTION
             then Thrown (SemanticException REDECLARED_FUNCTION (Function name)) w
             else Thrown (SemanticException REDECLARED_IDENTIFIER (Identifier name)) w
         | None \<Rightarrow> Thrown (SemanticException REDECLARED_IDENTIFIER (Identifier name)) w)
      else registerFunctions
             (w\<lparr>currentScope :=
                  snd (addSymbol (currentScope w) name
                         (SymbolInfo0\<lparr>si_name := name, si_kind := FUNCTION,
                                       si_returnType := returnType,
                                       si_paramTypes := map p_type parameters\<rparr>))\<rparr>)
             rest)"
| "registerFunctions w (decl # rest) = registerFunctions w rest"

fun analyzeDeclarations :: "SemanticAnalyzer \<Rightarrow> ASTNode list \<Rightarrow> outcome" where
  "analyzeDeclarations w [] = Normal w"
| "analyzeDeclarations w (FunctionDeclNode name parameters returnType bodyItems # rest) =
     (case analyzeFunctionDecl w name parameters returnType bodyItems of
        Thrown e w' \<Rightarrow> Thrown e w'
      | Normal w' \<Rightarrow> analyzeDeclarations w' rest)"
| "analyzeDeclarations w (VarDeclNode isConstant name typeNode initializer # rest) =
     (case analyzeVarDecl w isConstant name typeNode initializer of
        Thrown e w' \<Rightarrow> Thrown e w'
      | Normal w' \<Rightarrow> analyzeDeclarations w' rest)"
| "analyzeDeclarations w (decl # rest) = analyzeDeclarations w rest"

definition analyzeProgram :: "SemanticAnalyzer \<Rightarrow> ASTNode list \<Rightarrow> outcome" where
  "analyzeProgram w declarations =
     (case registerFunctions (w\<lparr>currentScope := Scope Map.empty None\<rparr>) declarations of
        Thrown e w' \<Rightarrow> Thrown e w'
      | Normal w1 \<Rightarrow> analyzeDeclarations w1 declarations)"

text \<open>
  The constructor and the entry point \<^verbatim>\<open>analyze\<close>; the root is a nullable pointer.
  The scope of the constructed object stands for the null \<^verbatim>\<open>currentScope\<close>.
\<close>

definition constructed :: SemanticAnalyzer where
  "constructed =
     \<lparr>currentScope = Scope Map.empty None, currentFunction = [],
      currentFunctionReturnType = DT_IOTA, hasReturn = False, isUnreachable = False\<rparr>"

definition analyze :: "ASTNode option \<Rightarrow> outcome" where
  "analyze rootNode =
     (case rootNode of
        None \<Rightarrow> Thrown (runtime_error ''AST root is null'') constructed
      | Some (ProgramNode declarations) \<Rightarrow> analyzeProgram constructed declarations
      | Some _ \<Rightarrow> Thrown (runtime_error ''Root is not a ProgramNode'') constructed)"

text \<open>
  The \<^verbatim>\<open>visit\<close> overloads of the statement and declaration classes, which a node's
  \<^verbatim>\<open>accept\<close> calls. The walk above never calls \<^verbatim>\<open>accept\<close>; these are the only places
  where the second family of statement classes throws.
\<close>

fun visit :: "SemanticAnalyzer \<Rightarrow> ASTNode \<Rightarrow> outcome" where
  "visit w (PrintStmtNode expression) =
     (case analyzeExpr (currentScope w) expression of
        Inl e \<Rightarrow> Thrown e w | Inr _ \<Rightarrow> Normal w)"
| "visit w (IfStmtNode condition thenItems elseItems) =
     analyzeIf w condition thenItems elseItems"
| "visit w (WhileStmtNode condition bodyItems) = analyzeWhile w condition bodyItems"
| "visit w (AssignmentStmtNode variableName val) = analyzeAssignment w variableName val"
| "visit w (ReturnStmtNode val) = analyzeReturn w val"
| "visit w (ProgramNode declarations) = analyzeProgram w declarations"
| "visit w (FunctionDeclNode name parameters returnType bodyItems) =
     analyzeFunctionDecl w name parameters returnType bodyItems"
| "visit w (VarDeclNode isConstant name typeNode initializer) =
     analyzeVarDecl w isConstant name typeNode initializer"
| "visit w (BlockNode items) = analyzeBlock w items False"
| "visit w (IfNode condition thenBranch elseBranch) =
     Thrown (runtime_error ''IfNode should not be encountered in semantic analysis'') w"
| "visit w (WhileNode condition body) =
     Thrown (runtime_error ''WhileNode should not be encountered in semantic analysis'') w"
| "visit w (ReturnNode val) =
     Thrown (runtime_error ''ReturnNode should not be encountered in semantic analysis'') w"
| "visit w (PrintNode expression) =
     Thrown (runtime_error ''PrintNode should not be encountered in semantic analysis'') w"
| "visit w (AssignmentNode variableName val) =
     Thrown (runtime_error
               ''AssignmentNode should not be encountered in semantic analysis'') w"
| "visit w (ExprStmtNode expression) =
     (case analyzeExpr (currentScope w) expression of
        Inl e \<Rightarrow> Thrown e w | Inr _ \<Rightarrow> Normal w)"
| "visit w (ExprItem (BinaryOpNode left op right)) =
     (case analyzeExpr (currentScope w) (BinaryOpNode left op right) of
        Inl e \<Rightarrow> Thrown e w | Inr _ \<Rightarrow> Normal w)"
| "visit w (ExprItem (UnaryOpNode op operand)) =
     (case analyzeExpr (currentScope w) (UnaryOpNode op operand) of
        Inl e \<Rightarrow> Thrown e w | Inr _ \<Rightarrow> Normal w)"
| "visit w (ExprItem (FunctionCallNode functionName arguments)) =
     (case analyzeExpr (currentScope w) (FunctionCallNode functionName arguments) of
        Inl e \<Rightarrow> Thrown e w | Inr _ \<Rightarrow> Normal w)"
| "visit w (ExprItem expr) = Normal w"

text \<open>An outcome that is the internal error, outside the taxonomy of diagnostics.\<close>

fun isInternalError :: "outcome \<Rightarrow> bool" where
  "isInternalError (Thrown (runtime_error msg) w) = True"
| "isInternalError out = False"

section \<open>The definite-return check in the spec's words\<close>

text \<open>
  The specification's \<open>all_paths_return\<close>, written from its four sentences and not from
  the code: a return statement returns; an if with both branches returns iff both
  branches return; no other statement returns; a block returns iff one of its items
  does. It is compared with \<open>checkPathsReturn\<close> below.
\<close>

fun stmt_returns :: "ASTNode \<Rightarrow> bool"
  and all_paths_return :: "ASTNode list \<Rightarrow> bool" where
  "stmt_returns (ReturnStmtNode v) = True"
| "stmt_returns (IfStmtNode c thenItems elseItems) =
     (elseItems \<noteq> [] \<and> all_paths_return thenItems \<and> all_paths_return elseItems)"
| "stmt_returns node = False"
| "all_paths_return [] = False"
| "all_paths_return (item # rest) = (stmt_returns item \<or> all_paths_return rest)"

section \<open>Auxiliary notions for the proofs\<close>

text \<open>The exception of an outcome, if it is one.\<close>

fun thrown :: "outcome \<Rightarrow> exception option" where
  "thrown (Normal w) = None"
| "thrown (Thrown e w) = Some e"

text \<open>
  A scope \<open>sc'\<close> extends \<open>sc\<close> when it has the same parent and every binding of
  \<open>sc\<close>. \<open>sameContext\<close> compares the function name and the return type of two walker
  states; \<open>frameStmt\<close> and \<open>frameItems\<close> are what a statement and a sequence of items
  leave unchanged on a normal exit.
\<close>

definition extends :: "Scope \<Rightarrow> Scope \<Rightarrow> bool" where
  "extends sc sc' = (parent sc' = parent sc \<and> table sc \<subseteq>\<^sub>m table sc')"

definition sameContext :: "SemanticAnalyzer \<Rightarrow> SemanticAnalyzer \<Rightarrow> bool" where
  "sameContext w w' =
     (currentFunction w = currentFunction w'
      \<and> currentFunctionReturnType w = currentFunctionReturnType w')"

definition frameStmt :: "SemanticAnalyzer \<Rightarrow> SemanticAnalyzer \<Rightarrow> bool" where
  "frameStmt w w' = (currentScope w = currentScope w' \<and> sameContext w w')"

definition frameItems :: "SemanticAnalyzer \<Rightarrow> SemanticAnalyzer \<Rightarrow> bool" where
  "frameItems w w' = (extends (currentScope w) (currentScope w') \<and> sameContext w w')"

text \<open>An outcome that is one of the two redeclaration diagnostics.\<close>

fun isRedeclaration :: "outcome \<Rightarrow> bool" where
  "isRedeclaration (Thrown (SemanticException REDECLARED_FUNCTION ctx) w) = True"
| "isRedeclaration (Thrown (SemanticException REDECLARED_IDENTIFIER ctx) w) = True"
| "isRedeclaration out = False"

text \<open>
  The depth of a scope is the number of its ancestors. An outcome is \<open>deeper\<close> for an
  entry state when a normal exit leaves a scope of the same depth and a throw leaves one
  at least as deep; it is \<open>pushed\<close> when a throw leaves a strictly deeper one.
  \<open>state_of\<close> is the state an outcome leaves.
\<close>

fun depth :: "Scope \<Rightarrow> nat" where
  "depth (Scope t p) = (case p of None \<Rightarrow> 0 | Some q \<Rightarrow> Suc (depth q))"

fun deeper :: "SemanticAnalyzer \<Rightarrow> outcome \<Rightarrow> bool" where
  "deeper w (Normal w') = (depth (currentScope w') = depth (currentScope w))"
| "deeper w (Thrown e w') = (depth (currentScope w) \<le> depth (currentScope w'))"

fun pushed :: "SemanticAnalyzer \<Rightarrow> outcome \<Rightarrow> bool" where
  "pushed w (Normal w') = (depth (currentScope w') = depth (currentScope w))"
| "pushed w (Thrown e w') = (depth (currentScope w) < depth (currentScope w'))"

fun state_of :: "outcome \<Rightarrow> SemanticAnalyzer" where
  "state_of (Normal w) = w"
| "state_of (Thrown e w) = w"

text \<open>
  The names of the function declarations and of the variable declarations in a list of
  top-level declarations; the exception for an undeclared function \<open>n\<close>; \<open>hoisted_ok\<close>: an
  outcome from a state in which \<open>n\<close> resolves is not that exception;
  \<open>onlyScopeChanged\<close>: two states agree on the four context fields.
\<close>

fun declaredFunctions :: "ASTNode list \<Rightarrow> string list" where
  "declaredFunctions [] = []"
| "declaredFunctions (FunctionDeclNode name ps rt body # rest) = name # declaredFunctions rest"
| "declaredFunctions (decl # rest) = declaredFunctions rest"

fun declaredVariables :: "ASTNode list \<Rightarrow> string list" where
  "declaredVariables [] = []"
| "declaredVariables (VarDeclNode c name ty init # rest) = name # declaredVariables rest"
| "declaredVariables (decl # rest) = declaredVariables rest"

definition undeclaredFunction :: "string \<Rightarrow> exception" where
  "undeclaredFunction n = SemanticException UNDECLARED_FUNCTION (Function n)"

definition hoisted_ok :: "string \<Rightarrow> SemanticAnalyzer \<Rightarrow> outcome \<Rightarrow> bool" where
  "hoisted_ok n w out =
     (lookup (currentScope w) n = None \<or> thrown out \<noteq> Some (undeclaredFunction n))"

definition onlyScopeChanged :: "SemanticAnalyzer \<Rightarrow> SemanticAnalyzer \<Rightarrow> bool" where
  "onlyScopeChanged w w' =
     (currentFunction w = currentFunction w'
      \<and> currentFunctionReturnType w = currentFunctionReturnType w'
      \<and> hasReturn w = hasReturn w' \<and> isUnreachable w = isUnreachable w')"

section \<open>Normal exits of the walker\<close>

lemmas walker_induct =
  analyzeFunctionDecl_analyzeStmt_analyzeIf_analyzeWhile_analyzeBlock_analyzeItem_analyzeBlockLoop.induct

lemma extends_refl [simp]: "extends sc sc"
  by (simp add: extends_def)

lemma extends_trans: "extends a b \<Longrightarrow> extends b c \<Longrightarrow> extends a c"
  by (auto simp: extends_def intro: map_le_trans)

lemma extends_addSymbol [simp]: "extends sc (snd (addSymbol sc n info))"
  by (cases sc) (auto simp: extends_def addSymbol_def map_le_def)

lemma analyzeVarDecl_Normal:
  "analyzeVarDecl w c n ty init = Normal w' \<Longrightarrow>
     w' = w\<lparr>currentScope := snd (addSymbol (currentScope w) n
                                    (SymbolInfo4 n (toDataType ty) VARIABLE c))\<rparr>"
  by (auto simp: analyzeVarDecl_def Let_def split: if_splits option.splits sum.splits)

lemma analyzeAssignment_Normal: "analyzeAssignment w n v = Normal w' \<Longrightarrow> w' = w"
  by (auto simp: analyzeAssignment_def split: if_splits option.splits sum.splits)

lemma analyzePrint_Normal: "analyzePrint w e = Normal w' \<Longrightarrow> w' = w"
  by (auto simp: analyzePrint_def split: if_splits sum.splits)

lemma analyzeReturn_Normal:
  "analyzeReturn w v = Normal w' \<Longrightarrow> w' = w\<lparr>hasReturn := True, isUnreachable := True\<rparr>"
  by (auto simp: analyzeReturn_def Let_def split: if_splits option.splits sum.splits)

lemma addParameters_Normal:
  "addParameters w ps = Normal w' \<Longrightarrow>
     extends (currentScope w) (currentScope w') \<and> sameContext w w'
     \<and> hasReturn w' = hasReturn w \<and> isUnreachable w' = isUnreachable w"
proof (induction ps arbitrary: w)
  case Nil
  then show ?case by (simp add: sameContext_def)
next
  case (Cons p ps)
  from Cons.prems have ne: "\<not> existsLocal (currentScope w) (p_name p)"
    by (simp split: if_splits)
  let ?w1 = "w\<lparr>currentScope := snd (addSymbol (currentScope w) (p_name p)
                 (SymbolInfo4 (p_name p) (p_type p) VARIABLE False))\<rparr>"
  from Cons.prems ne have "addParameters ?w1 ps = Normal w'" by simp
  from Cons.IH [OF this] show ?case
    using extends_trans [OF extends_addSymbol] by (simp add: sameContext_def) blast
qed

lemma analyzeFunctionDecl_Normal:
  "analyzeFunctionDecl w n ps rt body = Normal w' \<Longrightarrow> w' = w"
  by (auto simp: analyzeFunctionDecl.simps Let_def split: outcome.splits if_splits)


lemma frameItems_trans: "frameItems a b \<Longrightarrow> frameItems b c \<Longrightarrow> frameItems a c"
  unfolding frameItems_def sameContext_def using extends_trans by auto

lemma frameStmt_trans: "frameStmt a b \<Longrightarrow> frameStmt b c \<Longrightarrow> frameStmt a c"
  unfolding frameStmt_def sameContext_def by auto

lemma frameStmt_flag [simp]:
  "frameStmt a (b\<lparr>isUnreachable := u\<rparr>) = frameStmt a b"
  "frameStmt (a\<lparr>isUnreachable := u\<rparr>) b = frameStmt a b"
  by (simp_all add: frameStmt_def sameContext_def)

lemma frameItems_flag [simp]:
  "frameItems a (b\<lparr>isUnreachable := u\<rparr>) = frameItems a b"
  "frameItems (a\<lparr>isUnreachable := u\<rparr>) b = frameItems a b"
  by (simp_all add: frameItems_def sameContext_def)

lemma analyzeIf_NormalE:
  assumes "analyzeIf w c t e = Normal w'"
  shows "\<not> isUnreachable w \<and> analyzeExpr (currentScope w) c = Inr DT_BOOL
    \<and> (\<exists>w1. analyzeBlock w t True = Normal w1
          \<and> (if e = [] then w' = w1\<lparr>isUnreachable := isUnreachable w\<rparr>
               else (\<exists>w3. analyzeBlock (w1\<lparr>isUnreachable := isUnreachable w\<rparr>) e True
                            = Normal w3
                      \<and> w' = w3\<lparr>isUnreachable := (isUnreachable w1 \<and> isUnreachable w3)\<rparr>)))"
  using assms
  by (auto simp: analyzeIf.simps Let_def split: if_splits sum.splits outcome.splits)

lemma analyzeWhile_NormalE:
  assumes "analyzeWhile w c b = Normal w'"
  shows "\<not> isUnreachable w \<and> analyzeExpr (currentScope w) c = Inr DT_BOOL
    \<and> (\<exists>w1. analyzeBlock w b True = Normal w1
          \<and> w' = w1\<lparr>isUnreachable := isUnreachable w\<rparr>)"
  using assms
  by (auto simp: analyzeWhile.simps Let_def split: if_splits sum.splits outcome.splits)

lemma analyzeBlock_NormalE:
  assumes "analyzeBlock w xs b = Normal w'"
  shows "\<exists>w2. analyzeBlockLoop
            (if b then w\<lparr>currentScope := Scope Map.empty (Some (currentScope w))\<rparr> else w)
            False xs = Normal w2
          \<and> w' = (if b then w2\<lparr>currentScope := currentScope w\<rparr> else w2)"
  using assms
  by (auto simp: analyzeBlock.simps Let_def split: if_splits outcome.splits)

lemma analyzeBlockLoop_Cons_NormalE:
  assumes "analyzeBlockLoop w bu (item # rest) = Normal w'"
  shows "\<not> bu \<and> (\<exists>w1. analyzeItem w item = Normal w1
     \<and> (if isStmtNode item \<and> isTerminator item
          then analyzeBlockLoop (w1\<lparr>isUnreachable := True\<rparr>) True rest = Normal w'
          else analyzeBlockLoop w1 False rest = Normal w'))"
  using assms
  by (auto split: if_splits outcome.splits)

lemma frame:
  "(analyzeFunctionDecl w n ps rt body = Normal w' \<longrightarrow> w' = w)"
  "(analyzeStmt w1 node = Normal w1' \<longrightarrow> frameStmt w1 w1')"
  "(analyzeIf w2 c t e = Normal w2' \<longrightarrow> frameStmt w2 w2')"
  "(analyzeWhile w3 c3 b3 = Normal w3' \<longrightarrow> frameStmt w3 w3')"
  "(analyzeBlock w4 xs4 b4 = Normal w4' \<longrightarrow>
      (if b4 then frameStmt w4 w4' else frameItems w4 w4'))"
  "(analyzeItem w6 item = Normal w6' \<longrightarrow> frameItems w6 w6')"
  "(analyzeBlockLoop w5 bu xs5 = Normal w5' \<longrightarrow> frameItems w5 w5')"
proof (induction w n ps rt body and w1 node and w2 c t e and w3 c3 b3 and w4 xs4 b4
    and w6 item and w5 bu xs5
    arbitrary: w' and w1' and w2' and w3' and w4' and w6' and w5' rule: walker_induct)
  case (1 w name parameters returnType bodyItems)
  show ?case by (rule impI) (rule analyzeFunctionDecl_Normal)
next
  case (2 w variableName val)
  show ?case by (auto simp: frameStmt_def sameContext_def dest: analyzeAssignment_Normal)
next
  case (3 w val)
  show ?case by (auto simp: frameStmt_def sameContext_def dest: analyzeReturn_Normal)
next
  case (4 w expression)
  show ?case by (auto simp: frameStmt_def sameContext_def dest: analyzePrint_Normal)
next
  case (5 w condition thenItems elseItems)
  show ?case unfolding analyzeStmt.simps by (rule "5.IH")
next
  case (6 w condition bodyItems)
  show ?case unfolding analyzeStmt.simps by (rule "6.IH")
next
  case (8 w condition thenItems elseItems)
  show ?case
  proof
    assume a: "analyzeIf w condition thenItems elseItems = Normal w2'"
    have nn: "\<not> DT_BOOL \<noteq> DT_BOOL" by simp
    from analyzeIf_NormalE [OF a] obtain w1 where
      nu: "\<not> isUnreachable w" and ce: "analyzeExpr (currentScope w) condition = Inr DT_BOOL"
      and b1: "analyzeBlock w thenItems True = Normal w1"
      and r: "if elseItems = [] then w2' = w1\<lparr>isUnreachable := isUnreachable w\<rparr>
              else (\<exists>w3. analyzeBlock (w1\<lparr>isUnreachable := isUnreachable w\<rparr>) elseItems True
                            = Normal w3
                      \<and> w2' = w3\<lparr>isUnreachable := (isUnreachable w1 \<and> isUnreachable w3)\<rparr>)"
      by blast
    from "8.IH"(1) [OF nu ce nn refl] b1 have f1: "frameStmt w w1" by simp
    show "frameStmt w w2'"
    proof (cases "elseItems = []")
      case True
      with r f1 show ?thesis by simp
    next
      case False
      with r obtain w3 where
        b2: "analyzeBlock (w1\<lparr>isUnreachable := isUnreachable w\<rparr>) elseItems True = Normal w3"
        and w2': "w2' = w3\<lparr>isUnreachable := (isUnreachable w1 \<and> isUnreachable w3)\<rparr>"
        by auto
      from "8.IH"(2) [OF nu ce nn refl b1 refl refl False] b2
      have "frameStmt (w1\<lparr>isUnreachable := isUnreachable w\<rparr>) w3" by simp
      with f1 w2' show ?thesis using frameStmt_trans by simp
    qed
  qed
next
  case (9 w condition bodyItems)
  show ?case
  proof
    assume a: "analyzeWhile w condition bodyItems = Normal w3'"
    have nn: "\<not> DT_BOOL \<noteq> DT_BOOL" by simp
    from analyzeWhile_NormalE [OF a] obtain w1 where
      nu: "\<not> isUnreachable w" and ce: "analyzeExpr (currentScope w) condition = Inr DT_BOOL"
      and b1: "analyzeBlock w bodyItems True = Normal w1"
      and r: "w3' = w1\<lparr>isUnreachable := isUnreachable w\<rparr>"
      by blast
    from "9.IH" [OF nu ce nn refl] b1 have "frameStmt w w1" by simp
    with r show "frameStmt w w3'" by simp
  qed
next
  case (10 w block createNewScope)
  show ?case
  proof
    assume a: "analyzeBlock w block createNewScope = Normal w4'"
    let ?w1 = "if createNewScope
               then w\<lparr>currentScope := Scope Map.empty (Some (currentScope w))\<rparr> else w"
    from analyzeBlock_NormalE [OF a] obtain w2 where
      l: "analyzeBlockLoop ?w1 False block = Normal w2"
      and r: "w4' = (if createNewScope then w2\<lparr>currentScope := currentScope w\<rparr> else w2)"
      by blast
    from "10.IH" [OF refl refl] l have f: "frameItems ?w1 w2" by simp
    show "if createNewScope then frameStmt w w4' else frameItems w w4'"
      using f r by (auto simp: frameItems_def frameStmt_def sameContext_def)
  qed
next
  case (11 w name parameters returnType bodyItems)
  show ?case
  proof
    assume "analyzeItem w (FunctionDeclNode name parameters returnType bodyItems) = Normal w6'"
    then have "analyzeFunctionDecl w name parameters returnType bodyItems = Normal w6'"
      by simp
    from analyzeFunctionDecl_Normal [OF this]
    show "frameItems w w6'" by (simp add: frameItems_def sameContext_def)
  qed
next
  case (12 w isConstant name typeNode initializer)
  show ?case by (auto simp: frameItems_def sameContext_def dest!: analyzeVarDecl_Normal)
next
  case (14 w blockUnreachable)
  show ?case by (simp add: frameItems_def sameContext_def)
next
  case (15 w blockUnreachable item rest)
  show ?case
  proof
    assume a: "analyzeBlockLoop w blockUnreachable (item # rest) = Normal w5'"
    from analyzeBlockLoop_Cons_NormalE [OF a] obtain w1 where
      nb: "\<not> blockUnreachable" and i: "analyzeItem w item = Normal w1"
      and r: "if isStmtNode item \<and> isTerminator item
          then analyzeBlockLoop (w1\<lparr>isUnreachable := True\<rparr>) True rest = Normal w5'
          else analyzeBlockLoop w1 False rest = Normal w5'"
      by blast
    from "15.IH"(1) [OF nb] i have s1: "frameItems w w1" by simp
    have "frameItems w1 w5'"
    proof (cases "isStmtNode item \<and> isTerminator item")
      case True
      with r "15.IH"(2) [OF nb i True] show ?thesis by simp
    next
      case False
      with r "15.IH"(3) [OF nb i False] show ?thesis by simp
    qed
    with s1 show "frameItems w w5'" by (rule frameItems_trans)
  qed
qed (auto simp: frameStmt_def frameItems_def sameContext_def)


text \<open>The definitions that evaluating the walker on a concrete tree unfolds.\<close>

lemmas eval_defs =
  analyze_def analyzeProgram_def constructed_def existsLocal_def addSymbol_def lookupLocal_def
  SymbolInfo0_def SymbolInfo4_def analyzeVarDecl_def analyzeAssignment_def analyzeReturn_def
  analyzePrint_def isAssignmentCompatible_def isNumericType_def toDataType_def
  unreachable_code_def Let_def
  analyzeFunctionDecl.simps analyzeIf.simps analyzeWhile.simps analyzeBlock.simps

lemma checkPathsReturn_refines: "checkPathsReturn items = all_paths_return items"
  by (induction items rule: checkPathsReturn.induct) (auto simp: Let_def)

lemma all_paths_return_any: "all_paths_return items = (\<exists>item \<in> set items. stmt_returns item)"
  by (induction items) simp_all

lemma body_keeps_return_type:
  assumes "addParameters w0 ps = Normal w1" and "analyzeBlock w1 body False = Normal w2"
  shows "currentFunctionReturnType w2 = currentFunctionReturnType w0"
proof -
  from addParameters_Normal [OF assms(1)] have "sameContext w0 w1" by simp
  moreover from frame(5) [of w1 body False w2] assms(2) have "sameContext w1 w2"
    by (simp add: frameItems_def)
  ultimately show ?thesis by (simp add: sameContext_def)
qed

section \<open>Blocks and declarations\<close>

lemma analyzeFunctionDecl_NormalE:
  assumes "analyzeFunctionDecl w name parameters returnType bodyItems = Normal w'"
  shows "\<exists>w1 w2.
           addParameters
             (w\<lparr>currentScope := Scope Map.empty (Some (currentScope w)),
                currentFunction := name, currentFunctionReturnType := returnType,
                hasReturn := False, isUnreachable := False\<rparr>) parameters = Normal w1
           \<and> analyzeBlock w1 bodyItems False = Normal w2
           \<and> (currentFunctionReturnType w2 = DT_IOTA \<or> checkPathsReturn bodyItems)"
  using assms
  by (auto simp: analyzeFunctionDecl.simps Let_def split: outcome.splits if_splits)

lemma loop_after_return:
  assumes "analyzeBlockLoop w bu (pre @ [ReturnStmtNode v]) = Normal w'" and "rest \<noteq> []"
  shows "analyzeBlockLoop w bu (pre @ ReturnStmtNode v # rest) = Thrown unreachable_code w'
         \<and> isUnreachable w'"
  using assms
proof (induction pre arbitrary: w bu)
  case Nil
  from Nil.prems(2) obtain y ys where rest: "rest = y # ys" by (cases rest) auto
  from Nil.prems(1) show ?case
    by (auto simp: rest split: if_splits outcome.splits)
next
  case (Cons x xs)
  from analyzeBlockLoop_Cons_NormalE [of w bu x "xs @ [ReturnStmtNode v]" w'] Cons.prems(1)
  obtain w1 where nb: "\<not> bu" and i: "analyzeItem w x = Normal w1"
    and r: "if isStmtNode x \<and> isTerminator x
          then analyzeBlockLoop (w1\<lparr>isUnreachable := True\<rparr>) True (xs @ [ReturnStmtNode v])
                 = Normal w'
          else analyzeBlockLoop w1 False (xs @ [ReturnStmtNode v]) = Normal w'"
    by auto
  have nt: "\<not> (isStmtNode x \<and> isTerminator x)"
  proof
    assume t: "isStmtNode x \<and> isTerminator x"
    with r have "analyzeBlockLoop (w1\<lparr>isUnreachable := True\<rparr>) True (xs @ [ReturnStmtNode v])
                 = Normal w'" by simp
    then show False by (cases xs) simp_all
  qed
  with r have "analyzeBlockLoop w1 False (xs @ [ReturnStmtNode v]) = Normal w'" by simp
  from Cons.IH [OF this Cons.prems(2)] nb i nt show ?case by auto
qed

lemma analyzeExpr_no_redeclaration:
  "analyzeExpr sc e \<noteq> Inl (SemanticException REDECLARED_FUNCTION ctx)
   \<and> analyzeExpr sc e \<noteq> Inl (SemanticException REDECLARED_IDENTIFIER ctx)"
  "analyzeArgs sc f ps acc i args \<noteq> Inl (SemanticException REDECLARED_FUNCTION ctx)
   \<and> analyzeArgs sc f ps acc i args \<noteq> Inl (SemanticException REDECLARED_IDENTIFIER ctx)"
  by (induction sc e and sc f ps acc i args rule: analyzeExpr_analyzeArgs.induct)
     (auto split: sum.splits option.splits if_splits)

lemma isRedeclaration_Thrown:
  "isRedeclaration (Thrown ex w) =
     (\<exists>ctx. ex = SemanticException REDECLARED_FUNCTION ctx
          \<or> ex = SemanticException REDECLARED_IDENTIFIER ctx)"
proof (cases ex)
  case (SemanticException k ctx)
  then show ?thesis by (cases k) simp_all
next
  case (runtime_error msg)
  then show ?thesis by simp
qed

section \<open>The scope at a throw\<close>

lemma depth_addSymbol [simp]: "depth (snd (addSymbol sc n info)) = depth sc"
  by (cases sc) (simp add: addSymbol_def)

lemma deeper_flag [simp]:
  "deeper (w\<lparr>isUnreachable := u\<rparr>) out = deeper w out"
  by (cases out) simp_all

lemma pushed_flag [simp]:
  "pushed (w\<lparr>isUnreachable := u\<rparr>) out = pushed w out"
  by (cases out) simp_all

lemma deeper_cong: "depth (currentScope w) = depth (currentScope w0) \<Longrightarrow> deeper w out = deeper w0 out"
  by (cases out) simp_all

lemma pushed_deeper: "pushed w out \<Longrightarrow> deeper w out"
  by (cases out) simp_all

lemma deeper_simple:
  "deeper w (analyzeVarDecl w c n ty init)"
  "deeper w (analyzeAssignment w n v)"
  "deeper w (analyzeReturn w rv)"
  "deeper w (analyzePrint w e)"
  by (auto simp: analyzeVarDecl_def analyzeAssignment_def analyzeReturn_def
        analyzePrint_def Let_def split: option.splits sum.splits)

lemma deeper_addParameters: "deeper w (addParameters w ps)"
proof (induction ps arbitrary: w)
  case Nil
  show ?case by simp
next
  case (Cons p ps)
  let ?w1 = "w\<lparr>currentScope := snd (addSymbol (currentScope w) (p_name p)
                 (SymbolInfo4 (p_name p) (p_type p) VARIABLE False))\<rparr>"
  have "deeper ?w1 (addParameters ?w1 ps) = deeper w (addParameters ?w1 ps)"
    by (rule deeper_cong) simp
  with Cons.IH [of ?w1] show ?case by simp
qed

lemma scope_depth:
  "pushed w (analyzeFunctionDecl w n ps rt body)"
  "deeper w1 (analyzeStmt w1 node)"
  "deeper w2 (analyzeIf w2 c t e)"
  "deeper w3 (analyzeWhile w3 c3 b3)"
  "if b4 then pushed w4 (analyzeBlock w4 xs4 b4) else deeper w4 (analyzeBlock w4 xs4 b4)"
  "deeper w6 (analyzeItem w6 item)"
  "deeper w5 (analyzeBlockLoop w5 bu xs5)"
proof (induction w n ps rt body and w1 node and w2 c t e and w3 c3 b3 and w4 xs4 b4
    and w6 item and w5 bu xs5 rule: walker_induct)
  case (1 w name parameters returnType bodyItems)
  let ?e = "w\<lparr>currentScope := Scope Map.empty (Some (currentScope w)),
                      currentFunction := name,
                      currentFunctionReturnType := returnType,
                      hasReturn := False,
                      isUnreachable := False\<rparr>"
  have de: "depth (currentScope ?e) = Suc (depth (currentScope w))" by simp
  show ?case
  proof (cases "addParameters ?e parameters")
    case (Thrown ex w')
    with deeper_addParameters [of ?e parameters] de show ?thesis
      by (simp add: analyzeFunctionDecl.simps)
  next
    case (Normal w1)
    with deeper_addParameters [of ?e parameters] de
    have d1: "depth (currentScope w1) = Suc (depth (currentScope w))"
      by simp
    from "1.IH" [OF refl refl Normal]
    have "deeper w1 (analyzeBlock w1 bodyItems False)" by simp
    with Normal d1 show ?thesis
      by (auto simp: analyzeFunctionDecl.simps Let_def
               split: outcome.splits)
  qed
next
  case (2 w variableName val)
  show ?case by (simp add: deeper_simple)
next
  case (3 w val)
  show ?case by (simp add: deeper_simple)
next
  case (4 w expression)
  show ?case by (simp add: deeper_simple)
next
  case (5 w condition thenItems elseItems)
  then show ?case by simp
next
  case (6 w condition bodyItems)
  then show ?case by simp
next
  case (8 w condition thenItems elseItems)
  show ?case
  proof (cases "\<not> isUnreachable w \<and> analyzeExpr (currentScope w) condition = Inr DT_BOOL")
    case False
    then show ?thesis
      by (auto simp: analyzeIf.simps split: sum.splits)
  next
    case True
    then have nu: "\<not> isUnreachable w"
      and ce: "analyzeExpr (currentScope w) condition = Inr DT_BOOL" by simp_all
    have nn: "\<not> DT_BOOL \<noteq> DT_BOOL" by simp
    from "8.IH"(1) [OF nu ce nn refl]
    have p1: "pushed w (analyzeBlock w thenItems True)" by simp
    show ?thesis
    proof (cases "analyzeBlock w thenItems True")
      case (Thrown ex w')
      with p1 nu ce show ?thesis
        by (simp add: analyzeIf.simps)
    next
      case (Normal w1)
      with p1 have d1: "depth (currentScope w1) = depth (currentScope w)"
        by simp
      show ?thesis
      proof (cases "elseItems = []")
        case True
        with Normal d1 nu ce show ?thesis
          by (simp add: analyzeIf.simps Let_def)
      next
        case False
        from "8.IH"(2) [OF nu ce nn refl Normal refl refl False]
        have "pushed w1 (analyzeBlock (w1\<lparr>isUnreachable := isUnreachable w\<rparr>) elseItems True)"
          by simp
        with Normal d1 nu ce False show ?thesis
          by (auto simp: analyzeIf.simps Let_def split: outcome.splits)
      qed
    qed
  qed
next
  case (9 w condition bodyItems)
  show ?case
  proof (cases "\<not> isUnreachable w \<and> analyzeExpr (currentScope w) condition = Inr DT_BOOL")
    case False
    then show ?thesis
      by (auto simp: analyzeWhile.simps split: sum.splits)
  next
    case True
    then have nu: "\<not> isUnreachable w"
      and ce: "analyzeExpr (currentScope w) condition = Inr DT_BOOL" by simp_all
    have nn: "\<not> DT_BOOL \<noteq> DT_BOOL" by simp
    from "9.IH" [OF nu ce nn refl]
    have "pushed w (analyzeBlock w bodyItems True)" by simp
    with nu ce show ?thesis
      by (auto simp: analyzeWhile.simps Let_def split: outcome.splits)
  qed
next
  case (10 w block createNewScope)
  let ?w1 = "if createNewScope
             then w\<lparr>currentScope := Scope Map.empty (Some (currentScope w))\<rparr> else w"
  from "10.IH" [OF refl refl]
  have "deeper ?w1 (analyzeBlockLoop ?w1 False block)" .
  then show ?case
    by (auto simp: analyzeBlock.simps Let_def split: outcome.splits)
next
  case (11 w name parameters returnType bodyItems)
  then show ?case by (simp add: pushed_deeper)
next
  case (12 w isConstant name typeNode initializer)
  show ?case by (simp add: deeper_simple)
next
  case (14 w blockUnreachable)
  show ?case by simp
next
  case (15 w blockUnreachable item rest)
  show ?case
  proof (cases blockUnreachable)
    case True
    then show ?thesis by simp
  next
    case nb: False
    from "15.IH"(1) [OF nb] have di: "deeper w (analyzeItem w item)" .
    show ?thesis
    proof (cases "analyzeItem w item")
      case (Thrown ex w')
      with di nb show ?thesis by simp
    next
      case (Normal w1)
      with di have d1: "depth (currentScope w1) = depth (currentScope w)"
        by simp
      show ?thesis
      proof (cases "isStmtNode item \<and> isTerminator item")
        case True
        from "15.IH"(2) [OF nb Normal True] Normal nb True deeper_cong [OF d1] show ?thesis
          by simp
      next
        case False
        from "15.IH"(3) [OF nb Normal False] Normal nb False deeper_cong [OF d1] show ?thesis
          by auto
      qed
    qed
  qed
qed auto

section \<open>The two passes of the program walk\<close>

lemma analyzeExpr_undeclaredFunction:
  "analyzeExpr sc e = Inl (undeclaredFunction n) \<longrightarrow> lookup sc n = None"
  "analyzeArgs sc f ps acc i args = Inl (undeclaredFunction n) \<longrightarrow> lookup sc n = None"
  by (induction sc e and sc f ps acc i args rule: analyzeExpr_analyzeArgs.induct)
     (auto simp: undeclaredFunction_def split: sum.splits option.splits if_splits)

lemma lookup_child [simp]: "lookup (Scope Map.empty (Some sc)) n = lookup sc n"
  by simp

lemma lookup_extends:
  assumes "extends sc sc'" and "lookup sc n \<noteq> None"
  shows "lookup sc' n \<noteq> None"
proof (cases sc)
  case (Scope t p)
  show ?thesis
  proof (cases sc')
    case s': (Scope t' p')
    from assms(1) Scope s' have p: "p' = p" and le: "t \<subseteq>\<^sub>m t'"
      by (simp_all add: extends_def)
    show ?thesis
    proof (cases "t n")
      case None
      with assms(2) Scope s' p show ?thesis
        by (auto split: option.splits)
    next
      case (Some a)
      with le have "t' n = Some a" by (auto simp: map_le_def dom_def)
      with s' show ?thesis by simp
    qed
  qed
qed

lemma hoisted_ok_flag [simp]:
  "hoisted_ok n (w\<lparr>isUnreachable := u\<rparr>) out = hoisted_ok n w out"
  by (simp add: hoisted_ok_def)

lemma hoisted_ok_Normal [simp]: "hoisted_ok n w (Normal w')"
  by (simp add: hoisted_ok_def)

lemma hoisted_ok_Thrown:
  "hoisted_ok n w (Thrown e w') = (lookup (currentScope w) n = None \<or> e \<noteq> undeclaredFunction n)"
  by (simp add: hoisted_ok_def)

lemma hoisted_ok_cong:
  "(lookup (currentScope w) n = None) = (lookup (currentScope w0) n = None)
     \<Longrightarrow> hoisted_ok n w out = hoisted_ok n w0 out"
  by (simp add: hoisted_ok_def)

lemma hoisted_ok_simple:
  "hoisted_ok n w (analyzeVarDecl w c x ty init)"
  "hoisted_ok n w (analyzeAssignment w x v)"
  "hoisted_ok n w (analyzeReturn w rv)"
  "hoisted_ok n w (analyzePrint w e)"
  using analyzeExpr_undeclaredFunction(1) [of "currentScope w" _ n]
  by (auto simp: hoisted_ok_def analyzeVarDecl_def analyzeAssignment_def analyzeReturn_def
        analyzePrint_def Let_def undeclaredFunction_def unreachable_code_def
        split: option.splits sum.splits)

lemma addParameters_Thrown_kind:
  "addParameters w ps = Thrown e w' \<Longrightarrow> \<exists>x. e = SemanticException REDECLARED_IDENTIFIER (Identifier x)"
  by (induction ps arbitrary: w) (auto split: if_splits)

lemma never_undeclared:
  "hoisted_ok n w (analyzeFunctionDecl w name ps rt body)"
  "hoisted_ok n w1 (analyzeStmt w1 node)"
  "hoisted_ok n w2 (analyzeIf w2 c t e)"
  "hoisted_ok n w3 (analyzeWhile w3 c3 b3)"
  "hoisted_ok n w4 (analyzeBlock w4 xs4 b4)"
  "hoisted_ok n w6 (analyzeItem w6 item)"
  "hoisted_ok n w5 (analyzeBlockLoop w5 bu xs5)"
proof (induction w name ps rt body and w1 node and w2 c t e and w3 c3 b3 and w4 xs4 b4
    and w6 item and w5 bu xs5 rule: walker_induct)
  case (1 w name parameters returnType bodyItems)
  let ?e = "w\<lparr>currentScope := Scope Map.empty (Some (currentScope w)),
                      currentFunction := name,
                      currentFunctionReturnType := returnType,
                      hasReturn := False,
                      isUnreachable := False\<rparr>"
  show ?case
  proof (cases "addParameters ?e parameters")
    case (Thrown ex w')
    from addParameters_Thrown_kind [OF Thrown] Thrown show ?thesis
      by (auto simp: analyzeFunctionDecl.simps hoisted_ok_Thrown undeclaredFunction_def)
  next
    case (Normal w1)
    from addParameters_Normal [OF Normal]
    have ex: "extends (Scope Map.empty (Some (currentScope w))) (currentScope w1)" by simp
    have k: "lookup (currentScope w) n \<noteq> None \<Longrightarrow> lookup (currentScope w1) n \<noteq> None"
      using lookup_extends [OF ex, of n] by simp
    from "1.IH" [OF refl refl Normal]
    have "hoisted_ok n w1 (analyzeBlock w1 bodyItems False)" .
    with Normal k show ?thesis
      by (cases "analyzeBlock w1 bodyItems False")
         (auto simp: analyzeFunctionDecl.simps hoisted_ok_Thrown undeclaredFunction_def)
  qed
next
  case (2 w variableName val)
  show ?case by (simp add: hoisted_ok_simple)
next
  case (3 w val)
  show ?case by (simp add: hoisted_ok_simple)
next
  case (4 w expression)
  show ?case by (simp add: hoisted_ok_simple)
next
  case (5 w condition thenItems elseItems)
  then show ?case by simp
next
  case (6 w condition bodyItems)
  then show ?case by simp
next
  case (8 w condition thenItems elseItems)
  show ?case
  proof (cases "\<not> isUnreachable w \<and> analyzeExpr (currentScope w) condition = Inr DT_BOOL")
    case False
    then show ?thesis
      using analyzeExpr_undeclaredFunction(1) [of "currentScope w" condition n]
      by (auto simp: analyzeIf.simps hoisted_ok_Thrown undeclaredFunction_def
            unreachable_code_def split: sum.splits)
  next
    case True
    then have nu: "\<not> isUnreachable w"
      and ce: "analyzeExpr (currentScope w) condition = Inr DT_BOOL" by simp_all
    have nn: "\<not> DT_BOOL \<noteq> DT_BOOL" by simp
    from "8.IH"(1) [OF nu ce nn refl]
    have p1: "hoisted_ok n w (analyzeBlock w thenItems True)" .
    show ?thesis
    proof (cases "analyzeBlock w thenItems True")
      case (Thrown ex w')
      with p1 nu ce show ?thesis
        by (simp add: analyzeIf.simps hoisted_ok_Thrown)
    next
      case (Normal w1)
      from frame(5) [of w thenItems True w1] Normal
      have s1: "currentScope w = currentScope w1" by (simp add: frameStmt_def)
      show ?thesis
      proof (cases "elseItems = []")
        case True
        with Normal nu ce show ?thesis
          by (simp add: analyzeIf.simps Let_def)
      next
        case False
        from "8.IH"(2) [OF nu ce nn refl Normal refl refl False]
        have "hoisted_ok n w1 (analyzeBlock (w1\<lparr>isUnreachable := isUnreachable w\<rparr>)
                 elseItems True)"
          by simp
        with hoisted_ok_cong [of w1 n w] s1
        have "hoisted_ok n w (analyzeBlock (w1\<lparr>isUnreachable := isUnreachable w\<rparr>)
                 elseItems True)"
          by simp
        with Normal nu ce False show ?thesis
          by (cases "analyzeBlock (w1\<lparr>isUnreachable := isUnreachable w\<rparr>) elseItems True")
             (simp_all add: analyzeIf.simps hoisted_ok_Thrown Let_def)
      qed
    qed
  qed
next
  case (9 w condition bodyItems)
  show ?case
  proof (cases "\<not> isUnreachable w \<and> analyzeExpr (currentScope w) condition = Inr DT_BOOL")
    case False
    then show ?thesis
      using analyzeExpr_undeclaredFunction(1) [of "currentScope w" condition n]
      by (auto simp: analyzeWhile.simps hoisted_ok_Thrown undeclaredFunction_def
            unreachable_code_def split: sum.splits)
  next
    case True
    then have nu: "\<not> isUnreachable w"
      and ce: "analyzeExpr (currentScope w) condition = Inr DT_BOOL" by simp_all
    have nn: "\<not> DT_BOOL \<noteq> DT_BOOL" by simp
    from "9.IH" [OF nu ce nn refl]
    have "hoisted_ok n w (analyzeBlock w bodyItems True)" .
    with nu ce show ?thesis
      by (cases "analyzeBlock w bodyItems True")
         (simp_all add: analyzeWhile.simps hoisted_ok_Thrown Let_def)
  qed
next
  case (10 w block createNewScope)
  let ?w1 = "if createNewScope
             then w\<lparr>currentScope := Scope Map.empty (Some (currentScope w))\<rparr> else w"
  from "10.IH" [OF refl refl]
  have "hoisted_ok n ?w1 (analyzeBlockLoop ?w1 False block)" .
  moreover have "hoisted_ok n ?w1 (analyzeBlockLoop ?w1 False block)
                 = hoisted_ok n w (analyzeBlockLoop ?w1 False block)"
    by (rule hoisted_ok_cong) simp
  ultimately have "hoisted_ok n w (analyzeBlockLoop ?w1 False block)" by simp
  then show ?case
    by (cases "analyzeBlockLoop ?w1 False block")
       (simp_all add: analyzeBlock.simps hoisted_ok_Thrown Let_def)
next
  case (11 w name parameters returnType bodyItems)
  then show ?case by simp
next
  case (12 w isConstant name typeNode initializer)
  show ?case by (simp add: hoisted_ok_simple)
next
  case (14 w blockUnreachable)
  show ?case by simp
next
  case (15 w blockUnreachable item rest)
  show ?case
  proof (cases blockUnreachable)
    case True
    then show ?thesis
      by (simp add: hoisted_ok_Thrown undeclaredFunction_def unreachable_code_def)
  next
    case nb: False
    from "15.IH"(1) [OF nb] have di: "hoisted_ok n w (analyzeItem w item)" .
    show ?thesis
    proof (cases "analyzeItem w item")
      case (Thrown ex w')
      with di nb show ?thesis by (simp add: hoisted_ok_Thrown)
    next
      case (Normal w1)
      from frame(6) [of w item w1] Normal
      have ex: "extends (currentScope w) (currentScope w1)" by (simp add: frameItems_def)
      have k: "lookup (currentScope w) n \<noteq> None \<Longrightarrow> lookup (currentScope w1) n \<noteq> None"
        using lookup_extends [OF ex, of n] by simp
      show ?thesis
      proof (cases "isStmtNode item \<and> isTerminator item")
        case True
        from "15.IH"(2) [OF nb Normal True] Normal nb True k show ?thesis
          by (auto simp: hoisted_ok_def)
      next
        case False
        from "15.IH"(3) [OF nb Normal False] Normal nb False k show ?thesis
          by (auto simp: hoisted_ok_def)
      qed
    qed
  qed
qed simp_all

lemma onlyScopeChanged_refl [simp]: "onlyScopeChanged w w"
  by (simp add: onlyScopeChanged_def)

lemma table_addSymbol:
  "table sc name = None \<Longrightarrow>
     table (snd (addSymbol sc name info)) = (table sc)(name \<mapsto> info)"
  by (simp add: addSymbol_def)

lemma registerFunctions_Normal:
  "registerFunctions w decls = Normal w' \<Longrightarrow>
     onlyScopeChanged w w' \<and> extends (currentScope w) (currentScope w')
     \<and> dom (table (currentScope w'))
          = dom (table (currentScope w)) \<union> set (declaredFunctions decls)
     \<and> (\<forall>n \<in> set (declaredFunctions decls).
           \<exists>s. table (currentScope w') n = Some s \<and> si_kind s = FUNCTION)"
proof (induction w decls arbitrary: w' rule: registerFunctions.induct)
  case (1 w)
  then show ?case by simp
next
  case (2 w name parameters returnType bodyItems rest)
  let ?info = "SymbolInfo0\<lparr>si_name := name, si_kind := FUNCTION,
                                       si_returnType := returnType,
                                       si_paramTypes := map p_type parameters\<rparr>"
  let ?w1 = "w\<lparr>currentScope := snd (addSymbol (currentScope w) name ?info)\<rparr>"
  from "2.prems" have ne: "\<not> existsLocal (currentScope w) name"
    by (auto split: if_splits option.splits)
  then have tn: "table (currentScope w) name = None" by (simp add: existsLocal_def)
  from "2.prems" ne have r: "registerFunctions ?w1 rest = Normal w'" by simp
  from "2.IH" [OF ne r]
  have o: "onlyScopeChanged ?w1 w'" and e: "extends (currentScope ?w1) (currentScope w')"
    and d: "dom (table (currentScope w'))
          = dom (table (currentScope ?w1)) \<union> set (declaredFunctions rest)"
    and f: "\<forall>n \<in> set (declaredFunctions rest).
           \<exists>s. table (currentScope w') n = Some s \<and> si_kind s = FUNCTION"
    by simp_all
  have t1: "table (currentScope ?w1) = (table (currentScope w))(name \<mapsto> ?info)"
    using table_addSymbol [OF tn] by simp
  from e t1 have "table (currentScope w') name = Some ?info"
    by (auto simp: extends_def map_le_def)
  then have h: "\<exists>s. table (currentScope w') name = Some s \<and> si_kind s = FUNCTION"
    by simp
  have o': "onlyScopeChanged w w'"
    using o by (simp add: onlyScopeChanged_def)
  have e': "extends (currentScope w) (currentScope w')"
    using extends_trans [OF extends_addSymbol e [simplified]] .
  from o' e' d t1 f h show ?case by auto
qed auto

lemma analyzeVarDecl_Normal_fresh:
  "analyzeVarDecl w c n ty init = Normal w' \<Longrightarrow> table (currentScope w) n = None"
  by (auto simp: analyzeVarDecl_def existsLocal_def split: if_splits option.splits)

lemma analyzeDeclarations_Normal:
  "analyzeDeclarations w decls = Normal w' \<Longrightarrow>
     onlyScopeChanged w w' \<and> extends (currentScope w) (currentScope w')
     \<and> dom (table (currentScope w'))
          = dom (table (currentScope w)) \<union> set (declaredVariables decls)"
proof (induction w decls arbitrary: w' rule: analyzeDeclarations.induct)
  case (1 w)
  then show ?case by simp
next
  case (2 w name parameters returnType bodyItems rest)
  from "2.prems" obtain w1 where
    f: "analyzeFunctionDecl w name parameters returnType bodyItems = Normal w1"
    and r: "analyzeDeclarations w1 rest = Normal w'"
    by (auto split: outcome.splits)
  from analyzeFunctionDecl_Normal [OF f] have "w1 = w" .
  with "2.IH" [OF f r] show ?case by simp
next
  case (3 w isConstant name typeNode initializer rest)
  from "3.prems" obtain w1 where
    f: "analyzeVarDecl w isConstant name typeNode initializer = Normal w1"
    and r: "analyzeDeclarations w1 rest = Normal w'"
    by (auto split: outcome.splits)
  let ?info = "SymbolInfo4 name (toDataType typeNode) VARIABLE isConstant"
  from analyzeVarDecl_Normal [OF f]
  have w1: "w1 = w\<lparr>currentScope := snd (addSymbol (currentScope w) name ?info)\<rparr>" .
  from analyzeVarDecl_Normal_fresh [OF f] have tn: "table (currentScope w) name = None" .
  have t1: "table (currentScope w1) = (table (currentScope w))(name \<mapsto> ?info)"
    using table_addSymbol [OF tn] w1 by simp
  from "3.IH" [OF f r]
  have o: "onlyScopeChanged w1 w'" and e: "extends (currentScope w1) (currentScope w')"
    and d: "dom (table (currentScope w'))
          = dom (table (currentScope w1)) \<union> set (declaredVariables rest)"
    by simp_all
  have o': "onlyScopeChanged w w'"
    using o w1 by (simp add: onlyScopeChanged_def)
  have "extends (currentScope w) (currentScope w1)" using w1 by simp
  from extends_trans [OF this e] have e': "extends (currentScope w) (currentScope w')" .
  from o' e' d t1 show ?case by auto
qed auto

lemma analyzeDeclarations_append:
  "analyzeDeclarations w (pre @ rest) =
     (case analyzeDeclarations w pre of
        Thrown e w' \<Rightarrow> Thrown e w'
      | Normal w' \<Rightarrow> analyzeDeclarations w' rest)"
  by (induction w pre rule: analyzeDeclarations.induct) (auto split: outcome.splits)

lemma analyzeDeclarations_never_undeclared:
  "lookup (currentScope w) n \<noteq> None \<Longrightarrow>
     thrown (analyzeDeclarations w decls) \<noteq> Some (undeclaredFunction n)"
proof (induction w decls rule: analyzeDeclarations.induct)
  case (1 w)
  then show ?case by simp
next
  case (2 w name parameters returnType bodyItems rest)
  show ?case
  proof (cases "analyzeFunctionDecl w name parameters returnType bodyItems")
    case (Thrown ex w')
    with never_undeclared(1) [of n w name parameters returnType bodyItems] "2.prems"
    show ?thesis by (simp add: hoisted_ok_Thrown)
  next
    case (Normal w1)
    from analyzeFunctionDecl_Normal [OF Normal] have "w1 = w" .
    with "2.IH" [OF Normal] "2.prems" Normal show ?thesis by simp
  qed
next
  case (3 w isConstant name typeNode initializer rest)
  show ?case
  proof (cases "analyzeVarDecl w isConstant name typeNode initializer")
    case (Thrown ex w')
    with hoisted_ok_simple(1) [of n w isConstant name typeNode initializer] "3.prems"
    show ?thesis by (simp add: hoisted_ok_Thrown)
  next
    case (Normal w1)
    from analyzeVarDecl_Normal [OF Normal]
    have "extends (currentScope w) (currentScope w1)" by simp
    from lookup_extends [OF this "3.prems"] "3.IH" [OF Normal] Normal show ?thesis by simp
  qed
qed auto

lemma registerFunctions_Thrown_kind:
  "registerFunctions w decls = Thrown e w' \<Longrightarrow>
     (\<exists>x. e = SemanticException REDECLARED_FUNCTION (Function x))
     \<or> (\<exists>x. e = SemanticException REDECLARED_IDENTIFIER (Identifier x))"
  by (induction w decls rule: registerFunctions.induct)
     (auto split: if_splits option.splits)

lemma lookup_root: "parent sc = None \<Longrightarrow> lookup sc x = table sc x"
  by (cases sc) (auto split: option.splits)

lemma program_never_undeclared:
  assumes "n \<in> set (declaredFunctions declarations)"
  shows "thrown (analyzeProgram w declarations) \<noteq> Some (undeclaredFunction n)"
proof (cases "registerFunctions (w\<lparr>currentScope := Scope Map.empty None\<rparr>) declarations")
  case (Thrown ex w')
  from registerFunctions_Thrown_kind [OF Thrown] Thrown show ?thesis
    by (auto simp: analyzeProgram_def undeclaredFunction_def)
next
  case (Normal w1)
  from registerFunctions_Normal [OF Normal] assms
  obtain s where "table (currentScope w1) n = Some s" by auto
  then have "lookup (currentScope w1) n \<noteq> None" by (cases "currentScope w1") simp
  from analyzeDeclarations_never_undeclared [OF this] Normal show ?thesis
    by (simp add: analyzeProgram_def)
qed

lemma global_after_prefix:
  assumes reg: "registerFunctions (w\<lparr>currentScope := Scope Map.empty None\<rparr>) declarations
                  = Normal w1"
    and pre: "analyzeDeclarations w1 pre = Normal w2"
  shows "parent (currentScope w2) = None"
    and "dom (table (currentScope w2))
           = set (declaredFunctions declarations) \<union> set (declaredVariables pre)"
    and "isUnreachable w2 = isUnreachable w"
proof -
  from registerFunctions_Normal [OF reg]
  have o1: "onlyScopeChanged (w\<lparr>currentScope := Scope Map.empty None\<rparr>) w1"
    and e1: "extends (Scope Map.empty None) (currentScope w1)"
    and d1: "dom (table (currentScope w1)) = set (declaredFunctions declarations)"
    by simp_all
  from analyzeDeclarations_Normal [OF pre]
  have o2: "onlyScopeChanged w1 w2" and e2: "extends (currentScope w1) (currentScope w2)"
    and d2: "dom (table (currentScope w2))
               = dom (table (currentScope w1)) \<union> set (declaredVariables pre)"
    by simp_all
  from e1 e2 show "parent (currentScope w2) = None" by (simp add: extends_def)
  from d1 d2 show "dom (table (currentScope w2))
           = set (declaredFunctions declarations) \<union> set (declaredVariables pre)" by simp
  from o1 o2 show "isUnreachable w2 = isUnreachable w"
    by (simp add: onlyScopeChanged_def)
qed

section \<open>The context of an invalid signature\<close>

text \<open>
  When every argument of a call has a type and the argument at index \<open>k\<close> is the first
  that its parameter does not accept, the exception carries the argument types up to and
  including index \<open>k\<close>, whatever the number of arguments after it.
\<close>

lemma analyzeArgs_first_rejected:
  assumes "length ts = length args"
    and "\<forall>j<length args. analyzeExpr sc (args ! j) = Inr (ts ! j)"
    and "k < length args"
    and "\<not> isAssignmentCompatible (ps ! (i + k)) (ts ! k)"
    and "\<forall>j<k. isAssignmentCompatible (ps ! (i + j)) (ts ! j)"
  shows "analyzeArgs sc f ps acc i args
           = Inl (SemanticException INVALID_SIGNATURE (Signature f ps (acc @ take (Suc k) ts)))"
  using assms
proof (induction args arbitrary: ts k i acc)
  case Nil
  then show ?case by simp
next
  case (Cons a as)
  from Cons.prems(1) obtain t ts' where ts: "ts = t # ts'" and len: "length ts' = length as"
    by (cases ts) auto
  from Cons.prems(2) ts have a: "analyzeExpr sc a = Inr t" by auto
  show ?case
  proof (cases k)
    case 0
    with Cons.prems(4) ts a show ?thesis by simp
  next
    case (Suc k')
    from Cons.prems(5) Suc ts have c: "isAssignmentCompatible (ps ! i) t" by auto
    have p2: "\<forall>j<length as. analyzeExpr sc (as ! j) = Inr (ts' ! j)"
      using Cons.prems(2) ts by auto
    have p3: "k' < length as" using Cons.prems(3) Suc by simp
    have p4: "\<not> isAssignmentCompatible (ps ! (Suc i + k')) (ts' ! k')"
      using Cons.prems(4) Suc ts by simp
    have p5: "\<forall>j<k'. isAssignmentCompatible (ps ! (Suc i + j)) (ts' ! j)"
    proof (intro allI impI)
      fix j assume "j < k'"
      then have "Suc j < k" using Suc by simp
      with Cons.prems(5) have "isAssignmentCompatible (ps ! (i + Suc j)) (ts ! Suc j)" by blast
      with ts show "isAssignmentCompatible (ps ! (Suc i + j)) (ts' ! j)" by simp
    qed
    from Cons.IH [OF len p2 p3 p4 p5, of "acc @ [t]"] a c ts Suc show ?thesis by simp
  qed
qed

lemma call_first_rejected:
  assumes "lookup sc f = Some symbol" and "si_kind symbol = FUNCTION"
    and "length args = length (si_paramTypes symbol)"
    and "length ts = length args"
    and "\<forall>j<length args. analyzeExpr sc (args ! j) = Inr (ts ! j)"
    and "k < length args"
    and "\<not> isAssignmentCompatible (si_paramTypes symbol ! k) (ts ! k)"
    and "\<forall>j<k. isAssignmentCompatible (si_paramTypes symbol ! j) (ts ! j)"
  shows "analyzeExpr sc (FunctionCallNode f args)
           = Inl (SemanticException INVALID_SIGNATURE
                    (Signature f (si_paramTypes symbol) (take (Suc k) ts)))"
  using assms analyzeArgs_first_rejected [of ts args sc k "si_paramTypes symbol" 0 f "[]"]
  by simp

section \<open>Theorems\<close>

subsection \<open>C1\<close>

text \<open>
  C1. For an if statement that is reachable and whose condition types to Bool: the then
  branch is analyzed in a fresh child scope (a scope with an empty table whose parent is
  the current scope, popped afterwards) and leaves the state \<open>w1\<close>, whose \<open>isUnreachable\<close>
  is the then branch's terminal flag; the else branch starts from \<open>w1\<close> with the flag reset
  to its value before the if. With an else branch that leaves \<open>w3\<close>, the flag after the if
  is the conjunction of the two terminal flags; with no else branch it is the value before
  the if.
\<close>

theorem C1_if_unreachable:
  assumes "analyzeExpr (currentScope w) c = Inr DT_BOOL" and "\<not> isUnreachable w"
    and "analyzeBlock w thenItems True = Normal w1"
  shows "(elseItems = [] \<longrightarrow>
            analyzeIf w c thenItems elseItems
              = Normal (w1\<lparr>isUnreachable := isUnreachable w\<rparr>))
       \<and> (\<forall>w3. elseItems \<noteq> []
              \<and> analyzeBlock (w1\<lparr>isUnreachable := isUnreachable w\<rparr>) elseItems True
                    = Normal w3 \<longrightarrow>
            analyzeIf w c thenItems elseItems
              = Normal (w3\<lparr>isUnreachable := (isUnreachable w1 \<and> isUnreachable w3)\<rparr>))
       \<and> (\<exists>wt. analyzeBlockLoop
                   (w\<lparr>currentScope := Scope Map.empty (Some (currentScope w))\<rparr>)
                   False thenItems = Normal wt
              \<and> w1 = wt\<lparr>currentScope := currentScope w\<rparr>)"
  using assms
  by (auto simp: analyzeIf.simps analyzeBlock.simps Let_def split: outcome.splits)

text \<open>
  Witness for C1: in a function returning Int, \<^verbatim>\<open>if true { return 1; } else { return 2; }\<close>
  leaves the flag set, and \<^verbatim>\<open>if true { return 1; }\<close> leaves it as it was.
\<close>

theorem C1_if_unreachable_witness:
  "analyzeIf (constructed\<lparr>currentFunction := ''f'', currentFunctionReturnType := DT_INT\<rparr>)
      (BoolNode True) [ReturnStmtNode (Some (IntegerNode 1))]
      [ReturnStmtNode (Some (IntegerNode 2))]
    = Normal (constructed\<lparr>currentFunction := ''f'', currentFunctionReturnType := DT_INT,
                          hasReturn := True, isUnreachable := True\<rparr>)
   \<and> analyzeIf (constructed\<lparr>currentFunction := ''f'', currentFunctionReturnType := DT_INT\<rparr>)
      (BoolNode True) [ReturnStmtNode (Some (IntegerNode 1))] []
    = Normal (constructed\<lparr>currentFunction := ''f'', currentFunctionReturnType := DT_INT,
                          hasReturn := True, isUnreachable := False\<rparr>)"
proof -
  let ?w = "constructed\<lparr>currentFunction := ''f'', currentFunctionReturnType := DT_INT\<rparr>"
  let ?w1 = "?w\<lparr>hasReturn := True, isUnreachable := True\<rparr>"
  have h1: "analyzeExpr (currentScope ?w) (BoolNode True) = Inr DT_BOOL" by simp
  have h2: "\<not> isUnreachable ?w" by (simp add: constructed_def)
  have h3: "analyzeBlock ?w [ReturnStmtNode (Some (IntegerNode 1))] True = Normal ?w1"
    by (simp add: analyzeBlock.simps analyzeReturn_def constructed_def
          isAssignmentCompatible_def Let_def)
  have h4: "analyzeBlock (?w1\<lparr>isUnreachable := isUnreachable ?w\<rparr>)
              [ReturnStmtNode (Some (IntegerNode 2))] True = Normal ?w1"
    by (simp add: analyzeBlock.simps analyzeReturn_def constructed_def
          isAssignmentCompatible_def Let_def)
  from C1_if_unreachable [OF h1 h2 h3, of "[ReturnStmtNode (Some (IntegerNode 2))]"] h4
    C1_if_unreachable [OF h1 h2 h3, of "[]"]
  show ?thesis by (simp add: constructed_def)
qed

subsection \<open>C2\<close>

text \<open>
  C2, as stated, fails: for \<^verbatim>\<open>func f() -> int { print x; }\<close> with \<open>x\<close> undeclared the
  check fails on the body, and the analyzer raises \<open>undeclared_identifier\<close>, the
  diagnostic of the body, not \<open>missing_return\<close>.
\<close>

theorem C2_counterexample:
  "checkPathsReturn [PrintStmtNode (IdentifierNode ''x'')] = False
   \<and> thrown (analyze (Some (ProgramNode
         [FunctionDeclNode ''f'' [] DT_INT [PrintStmtNode (IdentifierNode ''x'')]])))
       = Some (SemanticException UNDECLARED_IDENTIFIER (Identifier ''x''))"
  by (simp add: analyze_def analyzeProgram_def constructed_def existsLocal_def addSymbol_def
        analyzePrint_def analyzeFunctionDecl.simps analyzeBlock.simps Let_def)

text \<open>
  C2, amended. For a function declaration with declared return type other than Unit:
  when its parameters are added and its body is analyzed without a diagnostic (leaving
  \<open>w2\<close>), the analyzer raises \<open>missing_return\<close> for the function iff the check
  \<open>all_paths_return\<close> fails on the body, and accepts the declaration iff it succeeds; and
  in any case an accepted declaration has a body on which the check succeeds. The check of
  the code is the check of the spec: a block returns iff one of its items does, where a
  return statement returns, an if with a non-empty else returns iff both branches do, and
  nothing else returns, a while with the literal \<open>true\<close> included.
\<close>

theorem C2_missing_return:
  assumes "returnType \<noteq> DT_IOTA"
  shows "(\<forall>w1 w2.
            addParameters
              (w\<lparr>currentScope := Scope Map.empty (Some (currentScope w)),
                 currentFunction := name, currentFunctionReturnType := returnType,
                 hasReturn := False, isUnreachable := False\<rparr>) parameters = Normal w1
            \<and> analyzeBlock w1 bodyItems False = Normal w2 \<longrightarrow>
            (analyzeFunctionDecl w name parameters returnType bodyItems
               = Thrown (SemanticException MISSING_RETURN (Function name)) w2)
              = (\<not> all_paths_return bodyItems)
            \<and> (analyzeFunctionDecl w name parameters returnType bodyItems = Normal w)
              = all_paths_return bodyItems)
       \<and> (\<forall>w'. analyzeFunctionDecl w name parameters returnType bodyItems = Normal w'
              \<longrightarrow> all_paths_return bodyItems)
       \<and> checkPathsReturn bodyItems = all_paths_return bodyItems
       \<and> all_paths_return bodyItems = (\<exists>item \<in> set bodyItems. stmt_returns item)
       \<and> stmt_returns (WhileStmtNode (BoolNode True) body) = False"
proof -
  let ?e = "w\<lparr>currentScope := Scope Map.empty (Some (currentScope w)),
                 currentFunction := name, currentFunctionReturnType := returnType,
                 hasReturn := False, isUnreachable := False\<rparr>"
  have A: "(analyzeFunctionDecl w name parameters returnType bodyItems
               = Thrown (SemanticException MISSING_RETURN (Function name)) w2)
              = (\<not> all_paths_return bodyItems)
            \<and> (analyzeFunctionDecl w name parameters returnType bodyItems = Normal w)
              = all_paths_return bodyItems"
    if p: "addParameters ?e parameters = Normal w1"
      and b: "analyzeBlock w1 bodyItems False = Normal w2" for w1 w2
  proof -
    from body_keeps_return_type [OF p b]
    have rt: "currentFunctionReturnType w2 = returnType" by simp
    have "analyzeFunctionDecl w name parameters returnType bodyItems =
            (if \<not> checkPathsReturn bodyItems
             then Thrown (SemanticException MISSING_RETURN (Function name)) w2
             else Normal w)"
      using assms p b rt by (simp add: analyzeFunctionDecl.simps Let_def)
    then show ?thesis by (simp add: checkPathsReturn_refines)
  qed
  have B: "all_paths_return bodyItems"
    if n: "analyzeFunctionDecl w name parameters returnType bodyItems = Normal w'" for w'
  proof -
    from analyzeFunctionDecl_NormalE [OF n] obtain w1 w2 where
      p: "addParameters ?e parameters = Normal w1"
      and b: "analyzeBlock w1 bodyItems False = Normal w2"
      and c: "currentFunctionReturnType w2 = DT_IOTA \<or> checkPathsReturn bodyItems"
      by blast
    from body_keeps_return_type [OF p b] assms c show ?thesis
      by (simp add: checkPathsReturn_refines)
  qed
  from A B all_paths_return_any [of bodyItems] show ?thesis
    by (simp add: checkPathsReturn_refines)
qed

text \<open>
  Witness for C2: \<^verbatim>\<open>func f() -> int { while true { return 1; } }\<close> at top level raises
  \<open>missing_return\<close> for \<open>f\<close>.
\<close>

theorem C2_missing_return_witness:
  "analyzeFunctionDecl constructed ''f'' [] DT_INT
     [WhileStmtNode (BoolNode True) [ReturnStmtNode (Some (IntegerNode 1))]]
   = Thrown (SemanticException MISSING_RETURN (Function ''f''))
       (constructed\<lparr>currentScope := Scope Map.empty (Some (currentScope constructed)),
                     currentFunction := ''f'', currentFunctionReturnType := DT_INT,
                     hasReturn := True\<rparr>)"
proof -
  let ?e = "constructed\<lparr>currentScope := Scope Map.empty (Some (currentScope constructed)),
              currentFunction := ''f'', currentFunctionReturnType := DT_INT,
              hasReturn := False, isUnreachable := False\<rparr>"
  let ?body = "[WhileStmtNode (BoolNode True) [ReturnStmtNode (Some (IntegerNode 1))]]"
  have h1: "DT_INT \<noteq> DT_IOTA" by simp
  have h23: "addParameters ?e [] = Normal ?e
             \<and> analyzeBlock ?e ?body False = Normal (?e\<lparr>hasReturn := True\<rparr>)"
    by (simp add: eval_defs)
  note T = C2_missing_return [OF h1, where w = constructed and name = "''f''"
      and parameters = "[]" and bodyItems = ?body, THEN conjunct1,
      rule_format, OF h23, THEN conjunct1]
  have "\<not> all_paths_return ?body" by simp
  with T show ?thesis by (simp add: constructed_def)
qed

text \<open>
  C3. The assignment-compatibility relation holds exactly on the reflexive pairs and on
  (Float, Int), (Bool, Int) and (Int, Bool); in particular it rejects (Int, Float),
  (Bool, Float) and (Float, Bool).
\<close>

theorem C3_accepts_exact:
  "isAssignmentCompatible target source =
     (target = source \<or> (target = DT_FLOAT \<and> source = DT_INT)
        \<or> (target = DT_BOOL \<and> source = DT_INT) \<or> (target = DT_INT \<and> source = DT_BOOL))
   \<and> isAssignmentCompatible DT_FLOAT DT_INT \<and> isAssignmentCompatible DT_BOOL DT_INT
   \<and> isAssignmentCompatible DT_INT DT_BOOL
   \<and> isAssignmentCompatible DT_INT DT_FLOAT = False
   \<and> isAssignmentCompatible DT_BOOL DT_FLOAT = False
   \<and> isAssignmentCompatible DT_FLOAT DT_BOOL = False"
  by (cases target; cases source; simp add: isAssignmentCompatible_def)

subsection \<open>C4\<close>

text \<open>
  C4, at the failing input: \<open>g\<close> has parameters (int, bool) and is called as
  \<^verbatim>\<open>g(2.0, true)\<close>. The first argument is the one not accepted; the exception carries
  the full list of parameter types and only the argument types up to the failing one,
  \<open>[Float]\<close>, not the full list \<open>[Float, Bool]\<close>: the \<^verbatim>\<open>throw\<close> stands inside the loop
  that fills \<^verbatim>\<open>actualTypes\<close>.
\<close>

theorem C4_partial_actual_types:
  "thrown (analyze (Some (ProgramNode
      [FunctionDeclNode ''g'' [Parameter ''a'' DT_INT, Parameter ''b'' DT_BOOL] DT_INT
         [ReturnStmtNode (Some (IntegerNode 0))],
       VarDeclNode False ''r'' (TypeNode ''int'')
         (Some (FunctionCallNode ''g'' [FloatNode 2.0, BoolNode True]))])))
   = Some (SemanticException INVALID_SIGNATURE
             (Signature ''g'' [DT_INT, DT_BOOL] [DT_FLOAT]))"
  by (simp add: eval_defs)

subsection \<open>C5\<close>

text \<open>
  C5. When the items of a block up to and including a return statement are analyzed
  without a diagnostic (the block cut after the return exits normally, with the
  unreachable flag set), the same block with any non-empty sequence of items after the
  return raises \<open>unreachable_code\<close>, whatever the next item is: the loop tests its flag
  before it looks at the item.
\<close>

theorem C5_unreachable_after_return:
  assumes "analyzeBlock w (pre @ [ReturnStmtNode v]) createNewScope = Normal w'"
    and "rest \<noteq> []"
  shows "thrown (analyzeBlock w (pre @ ReturnStmtNode v # rest) createNewScope)
           = Some (SemanticException UNREACHABLE_CODE NoContext)
       \<and> isUnreachable w'"
proof -
  let ?w1 = "if createNewScope
             then w\<lparr>currentScope := Scope Map.empty (Some (currentScope w))\<rparr> else w"
  from analyzeBlock_NormalE [OF assms(1)] obtain w2 where
    l: "analyzeBlockLoop ?w1 False (pre @ [ReturnStmtNode v]) = Normal w2"
    and r: "w' = (if createNewScope then w2\<lparr>currentScope := currentScope w\<rparr> else w2)"
    by blast
  from loop_after_return [OF l assms(2)]
  have "analyzeBlockLoop ?w1 False (pre @ ReturnStmtNode v # rest) = Thrown unreachable_code w2"
    and "isUnreachable w2" by simp_all
  with r show ?thesis
    by (simp add: analyzeBlock.simps Let_def unreachable_code_def)
qed

text \<open>
  Witness for C5: in a function returning Int, \<^verbatim>\<open>print 0; return 1;\<close> is accepted, and
  followed by a variable declaration or by a nested function declaration it raises
  \<open>unreachable_code\<close>.
\<close>

theorem C5_unreachable_after_return_witness:
  "analyzeBlock (constructed\<lparr>currentFunction := ''f'', currentFunctionReturnType := DT_INT\<rparr>)
     [PrintStmtNode (IntegerNode 0), ReturnStmtNode (Some (IntegerNode 1))] False
    = Normal (constructed\<lparr>currentFunction := ''f'', currentFunctionReturnType := DT_INT,
                hasReturn := True, isUnreachable := True\<rparr>)
   \<and> thrown (analyzeBlock
        (constructed\<lparr>currentFunction := ''f'', currentFunctionReturnType := DT_INT\<rparr>)
        [PrintStmtNode (IntegerNode 0), ReturnStmtNode (Some (IntegerNode 1)),
         VarDeclNode False ''y'' (TypeNode ''int'') (Some (IntegerNode 2))] False)
      = Some (SemanticException UNREACHABLE_CODE NoContext)
   \<and> thrown (analyzeBlock
        (constructed\<lparr>currentFunction := ''f'', currentFunctionReturnType := DT_INT\<rparr>)
        [PrintStmtNode (IntegerNode 0), ReturnStmtNode (Some (IntegerNode 1)),
         FunctionDeclNode ''g'' [] DT_IOTA []] False)
      = Some (SemanticException UNREACHABLE_CODE NoContext)"
proof -
  let ?w = "constructed\<lparr>currentFunction := ''f'', currentFunctionReturnType := DT_INT\<rparr>"
  let ?w' = "?w\<lparr>hasReturn := True, isUnreachable := True\<rparr>"
  have h: "analyzeBlock ?w ([PrintStmtNode (IntegerNode 0)]
              @ [ReturnStmtNode (Some (IntegerNode 1))]) False = Normal ?w'"
    by (simp add: eval_defs)
  have n1: "[VarDeclNode False ''y'' (TypeNode ''int'') (Some (IntegerNode 2))] \<noteq> []"
    by simp
  have n2: "[FunctionDeclNode ''g'' [] DT_IOTA []] \<noteq> []" by simp
  from C5_unreachable_after_return [OF h n1] C5_unreachable_after_return [OF h n2] h
  show ?thesis by (simp add: constructed_def)
qed

subsection \<open>C6\<close>

text \<open>
  C6. Whatever the order of the top-level declarations, the analysis of a program never
  raises \<open>undeclared_function\<close> for the name of a top-level function. When the first pass
  succeeds, the program walk is the second pass run from the state the first pass left,
  in which every top-level function name is bound to a function symbol of the global
  scope and nothing else is: no variable is. So when the declarations before a
  declaration \<open>d\<close> are accepted and \<open>x\<close> is neither a top-level function nor a variable
  declared before \<open>d\<close>, then \<open>x\<close> does not resolve at \<open>d\<close>, wherever it may be declared
  later: a parameterless function \<open>d\<close> whose body starts with \<^verbatim>\<open>print x\<close>, and a
  declaration \<open>d\<close> of a new variable with initializer \<open>x\<close>, raise
  \<open>undeclared_identifier\<close>.
\<close>

theorem C6_functions_hoisted_variables_not:
  "(\<forall>n \<in> set (declaredFunctions declarations).
      thrown (analyzeProgram w declarations)
        \<noteq> Some (SemanticException UNDECLARED_FUNCTION (Function n)))
   \<and> (\<forall>w1. registerFunctions (w\<lparr>currentScope := Scope Map.empty None\<rparr>) declarations
              = Normal w1 \<longrightarrow>
          analyzeProgram w declarations = analyzeDeclarations w1 declarations
          \<and> dom (table (currentScope w1)) = set (declaredFunctions declarations)
          \<and> (\<forall>n \<in> set (declaredFunctions declarations).
                \<exists>s. lookupLocal (currentScope w1) n = Some s \<and> si_kind s = FUNCTION)
          \<and> (\<forall>pre d post w2 x.
                declarations = pre @ d # post \<and> analyzeDeclarations w1 pre = Normal w2
                \<and> x \<notin> set (declaredFunctions declarations)
                \<and> x \<notin> set (declaredVariables pre) \<longrightarrow>
                lookup (currentScope w2) x = None
                \<and> (\<forall>f rt body.
                      d = FunctionDeclNode f [] rt (PrintStmtNode (IdentifierNode x) # body)
                      \<longrightarrow> thrown (analyzeProgram w declarations)
                            = Some (SemanticException UNDECLARED_IDENTIFIER (Identifier x)))
                \<and> (\<forall>c y ty.
                      d = VarDeclNode c y ty (Some (IdentifierNode x))
                      \<and> \<not> isUnreachable w
                      \<and> y \<notin> set (declaredFunctions declarations)
                      \<and> y \<notin> set (declaredVariables pre)
                      \<longrightarrow> thrown (analyzeProgram w declarations)
                            = Some (SemanticException UNDECLARED_IDENTIFIER (Identifier x)))))"
proof -
  have A: "\<forall>n \<in> set (declaredFunctions declarations).
      thrown (analyzeProgram w declarations)
        \<noteq> Some (SemanticException UNDECLARED_FUNCTION (Function n))"
    using program_never_undeclared [of _ declarations w]
    by (simp add: undeclaredFunction_def)
  have B: "analyzeProgram w declarations = analyzeDeclarations w1 declarations
          \<and> dom (table (currentScope w1)) = set (declaredFunctions declarations)
          \<and> (\<forall>n \<in> set (declaredFunctions declarations).
                \<exists>s. lookupLocal (currentScope w1) n = Some s \<and> si_kind s = FUNCTION)"
    if reg: "registerFunctions (w\<lparr>currentScope := Scope Map.empty None\<rparr>) declarations
              = Normal w1" for w1
    using registerFunctions_Normal [OF reg] reg
    by (simp add: analyzeProgram_def lookupLocal_def)
  have C: "lookup (currentScope w2) x = None
                \<and> (\<forall>f rt body.
                      d = FunctionDeclNode f [] rt (PrintStmtNode (IdentifierNode x) # body)
                      \<longrightarrow> thrown (analyzeProgram w declarations)
                            = Some (SemanticException UNDECLARED_IDENTIFIER (Identifier x)))
                \<and> (\<forall>c y ty.
                      d = VarDeclNode c y ty (Some (IdentifierNode x))
                      \<and> \<not> isUnreachable w
                      \<and> y \<notin> set (declaredFunctions declarations)
                      \<and> y \<notin> set (declaredVariables pre)
                      \<longrightarrow> thrown (analyzeProgram w declarations)
                            = Some (SemanticException UNDECLARED_IDENTIFIER (Identifier x)))"
    if reg: "registerFunctions (w\<lparr>currentScope := Scope Map.empty None\<rparr>) declarations
              = Normal w1"
      and split: "declarations = pre @ d # post"
      and pre: "analyzeDeclarations w1 pre = Normal w2"
      and xf: "x \<notin> set (declaredFunctions declarations)"
      and xv: "x \<notin> set (declaredVariables pre)"
    for w1 pre d post w2 x
  proof -
    note g = global_after_prefix [OF reg pre]
    from g(2) xf xv have tx: "table (currentScope w2) x = None" by auto
    with lookup_root [OF g(1)] have lx: "lookup (currentScope w2) x = None" by simp
    have prog: "analyzeProgram w declarations = analyzeDeclarations w2 (d # post)"
      using reg pre by (simp add: analyzeProgram_def split analyzeDeclarations_append)
    have F: "thrown (analyzeProgram w declarations)
                = Some (SemanticException UNDECLARED_IDENTIFIER (Identifier x))"
      if "d = FunctionDeclNode f [] rt (PrintStmtNode (IdentifierNode x) # body)"
      for f rt body
      using that lx prog
      by (simp add: analyzeFunctionDecl.simps analyzeBlock.simps analyzePrint_def Let_def)
    have V: "thrown (analyzeProgram w declarations)
                = Some (SemanticException UNDECLARED_IDENTIFIER (Identifier x))"
      if "d = VarDeclNode c y ty (Some (IdentifierNode x))" "\<not> isUnreachable w"
        "y \<notin> set (declaredFunctions declarations)" "y \<notin> set (declaredVariables pre)"
      for c y ty
    proof -
      from g(2) that(3,4) have "table (currentScope w2) y = None" by auto
      with that(1,2) g(3) lx prog show ?thesis
        by (simp add: analyzeVarDecl_def existsLocal_def Let_def)
    qed
    from lx F V show ?thesis by blast
  qed
  from A B C show ?thesis by blast
qed

text \<open>
  Witness for C6: \<open>f\<close> calling \<open>g\<close>, which is declared after it, is accepted; \<open>f\<close>
  printing \<open>x\<close>, and \<open>y\<close> initialized with \<open>x\<close>, each before \<^verbatim>\<open>var x: int := 1\<close>,
  raise \<open>undeclared_identifier\<close>.
\<close>

theorem C6_functions_hoisted_variables_not_witness:
  "thrown (analyze (Some (ProgramNode
      [FunctionDeclNode ''f'' [] DT_INT [ReturnStmtNode (Some (FunctionCallNode ''g'' []))],
       FunctionDeclNode ''g'' [] DT_INT [ReturnStmtNode (Some (IntegerNode 1))]]))) = None
   \<and> thrown (analyze (Some (ProgramNode
      [FunctionDeclNode ''f'' [] DT_IOTA [PrintStmtNode (IdentifierNode ''x'')],
       VarDeclNode False ''x'' (TypeNode ''int'') (Some (IntegerNode 1))])))
     = Some (SemanticException UNDECLARED_IDENTIFIER (Identifier ''x''))
   \<and> thrown (analyze (Some (ProgramNode
      [VarDeclNode False ''y'' (TypeNode ''int'') (Some (IdentifierNode ''x'')),
       VarDeclNode False ''x'' (TypeNode ''int'') (Some (IntegerNode 1))])))
     = Some (SemanticException UNDECLARED_IDENTIFIER (Identifier ''x''))"
proof -
  let ?f = "FunctionDeclNode ''f'' [] DT_IOTA [PrintStmtNode (IdentifierNode ''x'')]"
  let ?x = "VarDeclNode False ''x'' (TypeNode ''int'') (Some (IntegerNode 1))"
  let ?y = "VarDeclNode False ''y'' (TypeNode ''int'') (Some (IdentifierNode ''x''))"
  let ?w1 = "constructed\<lparr>currentScope :=
      Scope [''f'' \<mapsto> SymbolInfo0\<lparr>si_name := ''f'', si_kind := FUNCTION,
                                       si_returnType := DT_IOTA,
                                       si_paramTypes := []\<rparr>] None\<rparr>"
  have r1: "registerFunctions (constructed\<lparr>currentScope := Scope Map.empty None\<rparr>) [?f, ?x]
              = Normal ?w1"
    by (simp add: constructed_def existsLocal_def addSymbol_def)
  have r2: "registerFunctions (constructed\<lparr>currentScope := Scope Map.empty None\<rparr>) [?y, ?x]
              = Normal constructed"
    by (simp add: constructed_def)
  have h1: "[?f, ?x] = [] @ ?f # [?x] \<and> analyzeDeclarations ?w1 [] = Normal ?w1
            \<and> ''x'' \<notin> set (declaredFunctions [?f, ?x]) \<and> ''x'' \<notin> set (declaredVariables [])"
    by simp
  have h2: "[?y, ?x] = [] @ ?y # [?x] \<and> analyzeDeclarations constructed [] = Normal constructed
            \<and> ''x'' \<notin> set (declaredFunctions [?y, ?x]) \<and> ''x'' \<notin> set (declaredVariables [])"
    by simp
  have h3: "?y = VarDeclNode False ''y'' (TypeNode ''int'') (Some (IdentifierNode ''x''))
            \<and> \<not> isUnreachable constructed
            \<and> ''y'' \<notin> set (declaredFunctions [?y, ?x]) \<and> ''y'' \<notin> set (declaredVariables [])"
    by (simp add: constructed_def)
  note T1 = C6_functions_hoisted_variables_not [of "[?f, ?x]" constructed, THEN conjunct2,
      THEN spec, THEN mp, OF r1, THEN conjunct2, THEN conjunct2, THEN conjunct2,
      rule_format, OF h1, THEN conjunct2, THEN conjunct1, rule_format, OF refl]
  note T2 = C6_functions_hoisted_variables_not [of "[?y, ?x]" constructed, THEN conjunct2,
      THEN spec, THEN mp, OF r2, THEN conjunct2, THEN conjunct2, THEN conjunct2,
      rule_format, OF h2, THEN conjunct2, THEN conjunct2, rule_format, OF h3]
  have "thrown (analyzeProgram constructed [?f, ?x])
          = Some (SemanticException UNDECLARED_IDENTIFIER (Identifier ''x''))"
    by (rule T1)
  moreover have "thrown (analyzeProgram constructed [?y, ?x])
          = Some (SemanticException UNDECLARED_IDENTIFIER (Identifier ''x''))"
    by (rule T2)
  moreover have "thrown (analyze (Some (ProgramNode
      [FunctionDeclNode ''f'' [] DT_INT [ReturnStmtNode (Some (FunctionCallNode ''g'' []))],
       FunctionDeclNode ''g'' [] DT_INT [ReturnStmtNode (Some (IntegerNode 1))]]))) = None"
    by (simp add: eval_defs)
  ultimately show ?thesis by (simp add: analyze_def)
qed

subsection \<open>C7\<close>

text \<open>
  C7, as stated, fails. On the diagnostic path nothing is restored: for
  \<^verbatim>\<open>func f() -> int { print x; }\<close> with \<open>x\<close> undeclared, the walker is left with the
  function scope as current scope and with \<open>f\<close> and Int as function name and return type.
  And block analysis does not restore the two flags even when it exits normally: after the
  block \<^verbatim>\<open>{ return; }\<close> both \<open>hasReturn\<close> and \<open>isUnreachable\<close> are set.
\<close>

theorem C7_counterexample:
  "analyzeFunctionDecl constructed ''f'' [] DT_INT [PrintStmtNode (IdentifierNode ''x'')]
     = Thrown (SemanticException UNDECLARED_IDENTIFIER (Identifier ''x''))
         (constructed\<lparr>currentScope := Scope Map.empty (Some (currentScope constructed)),
                       currentFunction := ''f'', currentFunctionReturnType := DT_INT\<rparr>)
   \<and> currentScope constructed = Scope Map.empty None
   \<and> currentFunction constructed = []
   \<and> currentFunctionReturnType constructed = DT_IOTA
   \<and> analyzeBlock (constructed\<lparr>currentFunction := ''f''\<rparr>) [ReturnStmtNode None] True
     = Normal (constructed\<lparr>currentFunction := ''f'', hasReturn := True,
                           isUnreachable := True\<rparr>)
   \<and> hasReturn (constructed\<lparr>currentFunction := ''f''\<rparr>) = False
   \<and> isUnreachable (constructed\<lparr>currentFunction := ''f''\<rparr>) = False"
  by (simp add: eval_defs)

text \<open>
  C7, amended. When function-declaration analysis exits normally, the current scope and
  the four context fields have the values they had at entry. When block analysis exits
  normally, the function name and the return type have their entry values and the current
  scope is the entry scope (for a block with a scope of its own) or the entry scope with
  the block's declarations added (for a block without); the two flags are left as the
  block's statements set them. When function-declaration analysis, or the analysis of a
  block with a scope of its own, raises a diagnostic, the current scope is not the entry
  scope: no pop runs on that path.
\<close>

theorem C7_restored_on_normal_exit_only:
  "(analyzeFunctionDecl w name parameters returnType bodyItems = Normal w' \<longrightarrow> w' = w)
   \<and> (analyzeBlock w block True = Normal w' \<longrightarrow>
         currentScope w' = currentScope w \<and> currentFunction w' = currentFunction w
         \<and> currentFunctionReturnType w' = currentFunctionReturnType w)
   \<and> (analyzeBlock w block False = Normal w' \<longrightarrow>
         extends (currentScope w) (currentScope w') \<and> currentFunction w' = currentFunction w
         \<and> currentFunctionReturnType w' = currentFunctionReturnType w)
   \<and> (analyzeFunctionDecl w name parameters returnType bodyItems = Thrown e w' \<longrightarrow>
         currentScope w' \<noteq> currentScope w)
   \<and> (analyzeBlock w block True = Thrown e w' \<longrightarrow> currentScope w' \<noteq> currentScope w)"
proof -
  have a: "analyzeFunctionDecl w name parameters returnType bodyItems = Normal w' \<longrightarrow> w' = w"
    by (rule frame(1))
  have b: "analyzeBlock w block True = Normal w' \<longrightarrow>
         currentScope w' = currentScope w \<and> currentFunction w' = currentFunction w
         \<and> currentFunctionReturnType w' = currentFunctionReturnType w"
    using frame(5) [of w block True w'] by (simp add: frameStmt_def sameContext_def)
  have c: "analyzeBlock w block False = Normal w' \<longrightarrow>
         extends (currentScope w) (currentScope w') \<and> currentFunction w' = currentFunction w
         \<and> currentFunctionReturnType w' = currentFunctionReturnType w"
    using frame(5) [of w block False w'] by (simp add: frameItems_def sameContext_def)
  have d: "analyzeFunctionDecl w name parameters returnType bodyItems = Thrown e w' \<longrightarrow>
         currentScope w' \<noteq> currentScope w"
  proof
    assume t: "analyzeFunctionDecl w name parameters returnType bodyItems = Thrown e w'"
    from scope_depth(1) [of w name parameters returnType bodyItems] t
    have "depth (currentScope w) < depth (currentScope w')" by simp
    then show "currentScope w' \<noteq> currentScope w" by auto
  qed
  have e: "analyzeBlock w block True = Thrown e w' \<longrightarrow> currentScope w' \<noteq> currentScope w"
  proof
    assume t: "analyzeBlock w block True = Thrown e w'"
    from scope_depth(5) [of True w block] t
    have "depth (currentScope w) < depth (currentScope w')" by simp
    then show "currentScope w' \<noteq> currentScope w" by auto
  qed
  from a b c d e show ?thesis by blast
qed

text \<open>
  Witness for C7: \<^verbatim>\<open>func f(a: int) -> int { var y: int := a; return y; }\<close> returns
  the walker in its entry state, and \<^verbatim>\<open>func f() -> int { print x; }\<close> does not.
\<close>

theorem C7_restored_on_normal_exit_only_witness:
  "analyzeFunctionDecl constructed ''f'' [Parameter ''a'' DT_INT] DT_INT
     [VarDeclNode False ''y'' (TypeNode ''int'') (Some (IdentifierNode ''a'')),
      ReturnStmtNode (Some (IdentifierNode ''y''))]
     = Normal constructed
   \<and> currentScope (state_of (analyzeFunctionDecl constructed ''f'' [] DT_INT
          [PrintStmtNode (IdentifierNode ''x'')])) \<noteq> currentScope constructed"
proof -
  let ?body = "[VarDeclNode False ''y'' (TypeNode ''int'') (Some (IdentifierNode ''a'')),
      ReturnStmtNode (Some (IdentifierNode ''y''))]"
  have "\<exists>w'. analyzeFunctionDecl constructed ''f'' [Parameter ''a'' DT_INT] DT_INT ?body
               = Normal w'"
    by (simp add: eval_defs)
  then obtain w' where n:
    "analyzeFunctionDecl constructed ''f'' [Parameter ''a'' DT_INT] DT_INT ?body = Normal w'" ..
  have "\<exists>e w'. analyzeFunctionDecl constructed ''f'' [] DT_INT
                  [PrintStmtNode (IdentifierNode ''x'')] = Thrown e w'"
    by (simp add: eval_defs)
  then obtain e w'' where t:
    "analyzeFunctionDecl constructed ''f'' [] DT_INT [PrintStmtNode (IdentifierNode ''x'')]
       = Thrown e w''" by blast
  from C7_restored_on_normal_exit_only
         [of constructed "''f''" "[Parameter ''a'' DT_INT]" DT_INT ?body w'] n
  have "w' = constructed" by simp
  moreover
  from C7_restored_on_normal_exit_only
         [of constructed "''f''" "[]" DT_INT "[PrintStmtNode (IdentifierNode ''x'')]" w'' _ e] t
  have "currentScope w'' \<noteq> currentScope constructed" by simp
  ultimately show ?thesis using n t by simp
qed

subsection \<open>C8\<close>

text \<open>
  C8, on the code: \<^verbatim>\<open>analyzeStmt\<close> returns with nothing done on each class of the
  alternate statement family, a block holding them is accepted, and so is a program with
  them in a function body; the internal error is thrown only by the \<^verbatim>\<open>visit\<close>
  overloads, which the walk never calls.
\<close>

theorem C8_alternate_family_skipped:
  "analyzeStmt w (IfNode c thenBranch elseBranch) = Normal w
   \<and> analyzeStmt w (WhileNode c body) = Normal w
   \<and> analyzeStmt w (ReturnNode val) = Normal w
   \<and> analyzeStmt w (PrintNode e) = Normal w
   \<and> analyzeStmt w (AssignmentNode name v) = Normal w
   \<and> analyzeBlock w
         [IfNode c thenBranch elseBranch, WhileNode c body, ReturnNode val, PrintNode e,
          AssignmentNode name v] False = Normal w
   \<and> isInternalError (visit w (IfNode c thenBranch elseBranch))
   \<and> isInternalError (analyze (Some (ProgramNode
         [FunctionDeclNode ''f'' [] DT_IOTA
            [IfNode (BoolNode True) (ReturnNode None) None,
             PrintNode (IntegerNode 1)]]))) = False
   \<and> thrown (analyze (Some (ProgramNode
         [FunctionDeclNode ''f'' [] DT_IOTA
            [IfNode (BoolNode True) (ReturnNode None) None,
             PrintNode (IntegerNode 1)]]))) = None"
  by (simp add: eval_defs)

subsection \<open>C9\<close>

text \<open>
  C9. \<^verbatim>\<open>Scope::addSymbol\<close> fails iff the name is in the table of the scope itself, and
  \<^verbatim>\<open>existsLocal\<close> does not depend on the parent. A reachable variable or constant
  declaration raises a redeclaration diagnostic iff its name is in the current scope
  itself, and so do the insertion of a parameter and the registration of a top-level
  function. When the name is bound only in an enclosing scope and the initializer, if any,
  is accepted, the declaration succeeds, the current scope gets a new binding, and
  \<^verbatim>\<open>lookup\<close> from it returns the new binding although the enclosing scope still binds
  the name.
\<close>

theorem C9_duplicate_check_is_local:
  assumes "\<not> isUnreachable w"
  shows "fst (addSymbol sc name info) = (\<not> existsLocal sc name)
       \<and> existsLocal (Scope tbl p1) name = existsLocal (Scope tbl p2) name
       \<and> isRedeclaration (analyzeVarDecl w isConstant name typeNode initializer)
            = existsLocal (currentScope w) name
       \<and> isRedeclaration (addParameters w [param])
            = existsLocal (currentScope w) (p_name param)
       \<and> isRedeclaration
            (registerFunctions w [FunctionDeclNode name parameters returnType bodyItems])
            = existsLocal (currentScope w) name
       \<and> (\<forall>t p outer.
             currentScope w = Scope t (Some p) \<and> t name = None \<and> lookup p name = Some outer
             \<and> (\<forall>e. initializer = Some e \<longrightarrow>
                    (\<exists>ty. analyzeExpr (currentScope w) e = Inr ty
                          \<and> isAssignmentCompatible (toDataType typeNode) ty))
             \<longrightarrow> (\<exists>w'. analyzeVarDecl w isConstant name typeNode initializer = Normal w'
                       \<and> currentScope w'
                           = Scope (t(name \<mapsto> SymbolInfo4 name (toDataType typeNode)
                                                 VARIABLE isConstant)) (Some p)
                       \<and> lookup (currentScope w') name
                           = Some (SymbolInfo4 name (toDataType typeNode) VARIABLE isConstant)
                       \<and> lookup p name = Some outer))"
proof -
  have a: "fst (addSymbol sc name info) = (\<not> existsLocal sc name)"
    by (simp add: addSymbol_def existsLocal_def)
  have b: "existsLocal (Scope tbl p1) name = existsLocal (Scope tbl p2) name"
    by (simp add: existsLocal_def)
  have c: "isRedeclaration (analyzeVarDecl w isConstant name typeNode initializer)
            = existsLocal (currentScope w) name"
  proof (cases "existsLocal (currentScope w) name")
    case True
    with assms show ?thesis
      by (auto simp: analyzeVarDecl_def lookupLocal_def existsLocal_def split: option.splits)
  next
    case False
    show ?thesis
    proof (cases initializer)
      case None
      with False assms show ?thesis by (simp add: analyzeVarDecl_def Let_def)
    next
      case (Some e)
      show ?thesis
      proof (cases "analyzeExpr (currentScope w) e")
        case (Inl ex)
        with analyzeExpr_no_redeclaration(1) [of "currentScope w" e]
        have "\<not> isRedeclaration (Thrown ex w)" by (simp add: isRedeclaration_Thrown)
        with Inl Some False assms show ?thesis by (simp add: analyzeVarDecl_def Let_def)
      next
        case (Inr ty)
        with Some False assms show ?thesis by (simp add: analyzeVarDecl_def Let_def)
      qed
    qed
  qed
  have d: "\<exists>w'. analyzeVarDecl w isConstant name typeNode initializer = Normal w'
                       \<and> currentScope w'
                           = Scope (t(name \<mapsto> SymbolInfo4 name (toDataType typeNode)
                                                 VARIABLE isConstant)) (Some p)
                       \<and> lookup (currentScope w') name
                           = Some (SymbolInfo4 name (toDataType typeNode) VARIABLE isConstant)
                       \<and> lookup p name = Some outer"
    if "currentScope w = Scope t (Some p)" "t name = None" "lookup p name = Some outer"
      "\<forall>e. initializer = Some e \<longrightarrow>
                    (\<exists>ty. analyzeExpr (currentScope w) e = Inr ty
                          \<and> isAssignmentCompatible (toDataType typeNode) ty)"
    for t p outer
    using that assms
    by (cases initializer)
       (auto simp: analyzeVarDecl_def Let_def existsLocal_def addSymbol_def)
  have c2: "isRedeclaration (addParameters w [param])
            = existsLocal (currentScope w) (p_name param)"
    by (auto simp: existsLocal_def)
  have c3: "isRedeclaration
            (registerFunctions w [FunctionDeclNode name parameters returnType bodyItems])
            = existsLocal (currentScope w) name"
    by (auto simp: existsLocal_def lookupLocal_def split: option.splits)
  from a b c c2 c3 d show ?thesis by blast
qed

text \<open>
  Witness for C9: with \<open>x\<close> an Int variable of the enclosing scope,
  \<^verbatim>\<open>var x: float := 1\<close> is accepted in the inner scope and \<open>x\<close> then resolves to the
  Float binding; a second declaration of \<open>x\<close> in the inner scope is a redeclaration.
\<close>

theorem C9_duplicate_check_is_local_witness:
  "analyzeVarDecl
     (constructed\<lparr>currentScope :=
        Scope Map.empty
          (Some (Scope [''x'' \<mapsto> SymbolInfo4 ''x'' DT_INT VARIABLE False] None))\<rparr>)
     False ''x'' (TypeNode ''float'') (Some (IntegerNode 1))
   = Normal
       (constructed\<lparr>currentScope :=
          Scope [''x'' \<mapsto> SymbolInfo4 ''x'' DT_FLOAT VARIABLE False]
            (Some (Scope [''x'' \<mapsto> SymbolInfo4 ''x'' DT_INT VARIABLE False] None))\<rparr>)
   \<and> lookup
        (Scope [''x'' \<mapsto> SymbolInfo4 ''x'' DT_FLOAT VARIABLE False]
           (Some (Scope [''x'' \<mapsto> SymbolInfo4 ''x'' DT_INT VARIABLE False] None))) ''x''
      = Some (SymbolInfo4 ''x'' DT_FLOAT VARIABLE False)
   \<and> isRedeclaration
        (analyzeVarDecl
           (constructed\<lparr>currentScope :=
              Scope [''x'' \<mapsto> SymbolInfo4 ''x'' DT_FLOAT VARIABLE False]
                (Some (Scope [''x'' \<mapsto> SymbolInfo4 ''x'' DT_INT VARIABLE False] None))\<rparr>)
           False ''x'' (TypeNode ''int'') None)"
proof -
  let ?outer = "Scope [''x'' \<mapsto> SymbolInfo4 ''x'' DT_INT VARIABLE False] None"
  let ?w = "constructed\<lparr>currentScope := Scope Map.empty (Some ?outer)\<rparr>"
  let ?w' = "constructed\<lparr>currentScope :=
          Scope [''x'' \<mapsto> SymbolInfo4 ''x'' DT_FLOAT VARIABLE False] (Some ?outer)\<rparr>"
  have h: "\<not> isUnreachable ?w" by (simp add: constructed_def)
  have h': "\<not> isUnreachable ?w'" by (simp add: constructed_def)
  have i: "\<forall>e. Some (IntegerNode 1) = Some e \<longrightarrow>
              (\<exists>ty. analyzeExpr (currentScope ?w) e = Inr ty
                    \<and> isAssignmentCompatible (toDataType (TypeNode ''float'')) ty)"
    by (simp add: isAssignmentCompatible_def toDataType_def)
  have e: "analyzeVarDecl ?w False ''x'' (TypeNode ''float'') (Some (IntegerNode 1)) = Normal ?w'"
    by (simp add: analyzeVarDecl_def Let_def constructed_def existsLocal_def addSymbol_def
          toDataType_def isAssignmentCompatible_def)
  from C9_duplicate_check_is_local [OF h, of "currentScope ?w" "''x''" SymbolInfo0 Map.empty
      None None False "TypeNode ''float''" "Some (IntegerNode 1)"] i e
  have l: "lookup (currentScope ?w') ''x'' = Some (SymbolInfo4 ''x'' DT_FLOAT VARIABLE False)"
    by (simp add: toDataType_def)
  from C9_duplicate_check_is_local [OF h', of "currentScope ?w'" "''x''" SymbolInfo0 Map.empty
      None None False "TypeNode ''int''" None]
  have r: "isRedeclaration (analyzeVarDecl ?w' False ''x'' (TypeNode ''int'') None)"
    by (simp add: existsLocal_def)
  from e l r show ?thesis by simp
qed

subsection \<open>C10\<close>

text \<open>
  C10, as stated, fails: the operands are typed first, and \<^verbatim>\<open>x % 1\<close> with \<open>x\<close>
  undeclared raises \<open>undeclared_identifier\<close>.
\<close>

theorem C10_counterexample:
  "analyzeExpr (Scope Map.empty None)
     (BinaryOpNode (IdentifierNode ''x'') ''%'' (IntegerNode 1))
   = Inl (SemanticException UNDECLARED_IDENTIFIER (Identifier ''x''))"
  by simp

text \<open>
  C10, amended. For a binary operation whose operator is none of
  \<^verbatim>\<open>+ - * / < > <= >= == !=\<close> and a unary operation whose operator is not \<^verbatim>\<open>-\<close>,
  expression typing raises the first diagnostic of the operands if there is one, and
  otherwise raises nothing and returns Unit (\<^verbatim>\<open>IOTA\<close>); in a compatibility check Unit is
  an ordinary type, accepted by a Unit target only.
\<close>

theorem C10_unknown_operator:
  assumes "op \<notin> {''+'', ''-'', ''*'', ''/'', ''<'', ''>'', ''<='', ''>='', ''=='', ''!=''}"
    and "uop \<noteq> ''-''"
  shows "analyzeExpr sc (BinaryOpNode left op right) =
           (case analyzeExpr sc left of
              Inl ex \<Rightarrow> Inl ex
            | Inr leftType \<Rightarrow>
                (case analyzeExpr sc right of
                   Inl ex \<Rightarrow> Inl ex
                 | Inr rightType \<Rightarrow> Inr DT_IOTA))
       \<and> analyzeExpr sc (UnaryOpNode uop operand) =
           (case analyzeExpr sc operand of
              Inl ex \<Rightarrow> Inl ex
            | Inr operandType \<Rightarrow> Inr DT_IOTA)
       \<and> isAssignmentCompatible target DT_IOTA = (target = DT_IOTA)"
  using assms by (auto simp: isAssignmentCompatible_def split: sum.splits)

text \<open>Witness for C10: \<^verbatim>\<open>1 % true\<close> and \<^verbatim>\<open>!true\<close> have type Unit, which Int rejects.\<close>

theorem C10_unknown_operator_witness:
  "analyzeExpr (Scope Map.empty None) (BinaryOpNode (IntegerNode 1) ''%'' (BoolNode True))
     = Inr DT_IOTA
   \<and> analyzeExpr (Scope Map.empty None) (UnaryOpNode ''!'' (BoolNode True)) = Inr DT_IOTA
   \<and> isAssignmentCompatible DT_INT DT_IOTA = False"
  using C10_unknown_operator [of "''%''" "''!''" "Scope Map.empty None" "IntegerNode 1"
    "BoolNode True" "BoolNode True" DT_INT]
  by simp

end
